theory Spec2Isabelle
  imports Complex_Main "HOL-Library.AList" "HOL-Library.Sublist"
begin

section \<open>Python values shared by both modules\<close>

text \<open>
  A Python \<open>str\<close> is a \<open>string\<close>; a \<open>char\<close> stands for one character (code point), of
  which the model has the first 256. \<open>str.strip()\<close> removes the characters for which
  \<open>str.isspace\<close> holds from both ends; among the first 256 code points these are
  9..13, 28..32, 133 and 160.
\<close>

definition py_isspace :: "char \<Rightarrow> bool" where
  "py_isspace c =
     (let n = (of_char c :: nat)
      in (9 \<le> n \<and> n \<le> 13) \<or> (28 \<le> n \<and> n \<le> 32) \<or> n = 133 \<or> n = 160)"

definition py_strip :: "string \<Rightarrow> string" where
  "py_strip s = rev (dropWhile py_isspace (rev (dropWhile py_isspace s)))"

text \<open>The exceptions the two modules can meet, as values.\<close>

datatype py_error =
    JSONDecodeError
  | TypeError
  | ValidationError
  | AttributeError
  | UnicodeDecodeError
  | FileNotFoundError
  | IsADirectoryError
  | FileExistsError
  | NotADirectoryError
  | AssertionError
  | NotImplementedError

section \<open>ui/shell/metacmd.py: the meta command registry\<close>

















section \<open>ui/shell/metacmd.py: the clear and compact commands\<close>

text \<open>
  \<open>KimiSoul\<close> and its \<open>Context\<close> are not among the sources. A context is a value of any
  type \<open>'c\<close>, and what the two handlers call on it is taken as a parameter:
  \<open>n_checkpoints\<close>, \<open>revert_to\<close> and \<open>compact_context\<close>, the last two able to raise.
\<close>

record 'c soul_ops =
  n_checkpoints :: "'c \<Rightarrow> nat"
  revert_to :: "nat \<Rightarrow> 'c \<Rightarrow> py_error + 'c"
  compact_context :: "'c \<Rightarrow> py_error + 'c"

text \<open>\<open>app.soul\<close> is a \<open>KimiSoul\<close> holding its context, or some other soul.\<close>

datatype 'c soul = KimiSoul 'c | OtherSoul

text \<open>
  What a handler prints with \<open>console.print\<close>: \<open>[yellow]Context is empty.[/yellow]\<close>, and
  the two success lines, a green check mark (U+2713) followed by
  \<open>Context has been cleared.\<close> or \<open>Context has been compacted.\<close>
\<close>

datatype console_text = ContextIsEmpty | ContextHasBeenCleared | ContextHasBeenCompacted

text \<open>
  A handler's run is the list of what it did, in order, and how it ended: the context it
  leaves, or the exception it raised. Logger calls and the spinner of
  \<open>console.status\<close> are left out.
\<close>

datatype event = ConsolePrint console_text | RevertTo nat | CompactContext

definition clear :: "'c soul_ops \<Rightarrow> 'c soul \<Rightarrow> (py_error + 'c) \<times> event list" where
  "clear ops soul =
     (case soul of
        OtherSoul \<Rightarrow> (Inl AssertionError, [])
      | KimiSoul c \<Rightarrow>
          if n_checkpoints ops c = 0 then (Inr c, [ConsolePrint ContextIsEmpty])
          else (case revert_to ops 0 c of
                  Inl e \<Rightarrow> (Inl e, [RevertTo 0])
                | Inr c' \<Rightarrow> (Inr c', [RevertTo 0, ConsolePrint ContextHasBeenCleared])))"

definition compact :: "'c soul_ops \<Rightarrow> 'c soul \<Rightarrow> (py_error + 'c) \<times> event list" where
  "compact ops soul =
     (case soul of
        OtherSoul \<Rightarrow> (Inl AssertionError, [])
      | KimiSoul c \<Rightarrow>
          if n_checkpoints ops c = 0 then (Inr c, [ConsolePrint ContextIsEmpty])
          else (case compact_context ops c of
                  Inl e \<Rightarrow> (Inl e, [CompactContext])
                | Inr c' \<Rightarrow> (Inr c', [CompactContext, ConsolePrint ContextHasBeenCompacted])))"

section \<open>metadata.py: JSON values, the file system and the environment\<close>

text \<open>
  What \<open>json.load\<close> and \<open>json.loads\<close> return. An object is a Python \<open>dict\<close>: an
  association list in insertion order, read with \<open>map_of\<close>.
\<close>

datatype pyfloat = Finite real | PosInf | NegInf | NaN

datatype json =
    JNull
  | JBool bool
  | JInt int
  | JFloat pyfloat
  | JStr string
  | JArr "json list"
  | JObj "(string \<times> json) list"

text \<open>Python's truth value of a decoded value (\<open>not content\<close>).\<close>

fun truthy :: "json \<Rightarrow> bool" where
  "truthy JNull = False"
| "truthy (JBool b) = b"
| "truthy (JInt n) = (n \<noteq> 0)"
| "truthy (JFloat f) = (f \<noteq> Finite 0)"
| "truthy (JStr s) = (s \<noteq> [])"
| "truthy (JArr xs) = (xs \<noteq> [])"
| "truthy (JObj kvs) = (kvs \<noteq> [])"

text \<open>
  A path is the list of its components below the root. The file system maps a path to
  what is there: a regular file with its text; a regular file whose bytes are not valid
  UTF-8, with the lines a reader in text mode yields before it raises
  \<open>UnicodeDecodeError\<close> (the text is decoded a block at a time, so these stop before the
  block with the bad bytes: a short file yields none); a directory; or a symbolic link to
  nothing, one whose target is in no directory either. The order of the association list
  is the order in which a directory scan yields the entries. There are no links to
  something, no permissions and no limit on the length of a name: a name that is there
  can be looked up, and the parent of a directory is the path without its last component.
\<close>

type_synonym fspath = "string list"

datatype node = File string | Undecodable "string list" | Dir | DanglingLink

type_synonym filesystem = "(fspath \<times> node) list"

text \<open>
  What the module takes from outside: \<open>get_share_dir()\<close> (\<open>kimi_cli.share\<close> is not among
  the sources), the \<open>json\<close> codec (\<open>json_loads\<close> is \<open>None\<close> where decoding raises;
  \<open>json_dumps\<close> is the text \<open>json.dump(..., indent=2, ensure_ascii=False)\<close> writes),
  \<open>md5(...).hexdigest()\<close>, \<open>str()\<close> of a decoded value that is not a string, and
  \<open>datetime.fromtimestamp(p.stat().st_mtime)\<close> as a number.
\<close>

record py_env =
  share_dir :: fspath
  json_loads :: "string \<Rightarrow> json option"
  json_dumps :: "json \<Rightarrow> string"
  md5_hexdigest :: "string \<Rightarrow> string"
  py_str :: "json \<Rightarrow> string"
  st_mtime :: "fspath \<Rightarrow> int"

text \<open>\<open>Path.exists()\<close>: it follows a link, so a link to nothing does not exist.\<close>

definition path_exists :: "filesystem \<Rightarrow> fspath \<Rightarrow> bool" where
  "path_exists fs p =
     (case map_of fs p of None \<Rightarrow> False | Some DanglingLink \<Rightarrow> False | Some _ \<Rightarrow> True)"

text \<open>\<open>open(p, encoding="utf-8")\<close> and reading all of the text.\<close>

definition open_read :: "filesystem \<Rightarrow> fspath \<Rightarrow> py_error + string" where
  "open_read fs p =
     (case map_of fs p of
        None \<Rightarrow> Inl FileNotFoundError
      | Some DanglingLink \<Rightarrow> Inl FileNotFoundError
      | Some Dir \<Rightarrow> Inl IsADirectoryError
      | Some (Undecodable ls) \<Rightarrow> Inl UnicodeDecodeError
      | Some (File s) \<Rightarrow> Inr s)"

text \<open>
  \<open>p.mkdir(parents=True, exist_ok=True)\<close>, walking from \<open>base\<close> down the components
  still to come: a missing directory is created, a directory is kept, a regular file in
  the way raises (\<open>FileExistsError\<close> at the path itself, \<open>NotADirectoryError\<close> above it),
  and so does a link to nothing (\<open>FileExistsError\<close>).
\<close>

fun mkdir_parents :: "fspath \<Rightarrow> string list \<Rightarrow> filesystem \<Rightarrow> py_error + filesystem" where
  "mkdir_parents base [] fs = Inr fs"
| "mkdir_parents base (c # cs) fs =
     (case map_of fs (base @ [c]) of
        None \<Rightarrow> mkdir_parents (base @ [c]) cs (fs @ [(base @ [c], Dir)])
      | Some Dir \<Rightarrow> mkdir_parents (base @ [c]) cs fs
      | Some DanglingLink \<Rightarrow> Inl FileExistsError
      | Some _ \<Rightarrow> Inl (if cs = [] then FileExistsError else NotADirectoryError))"

text \<open>
  What stops a walk from \<open>base\<close> down the directories named by the components: nothing
  when each is a directory, \<open>NotADirectoryError\<close> at a regular file,
  \<open>FileNotFoundError\<close> at a missing name or a link to nothing.
\<close>

fun walk_dirs :: "filesystem \<Rightarrow> fspath \<Rightarrow> string list \<Rightarrow> py_error option" where
  "walk_dirs fs base [] = None"
| "walk_dirs fs base (c # cs) =
     (case map_of fs (base @ [c]) of
        Some Dir \<Rightarrow> walk_dirs fs (base @ [c]) cs
      | Some (File s) \<Rightarrow> Some NotADirectoryError
      | Some (Undecodable ls) \<Rightarrow> Some NotADirectoryError
      | _ \<Rightarrow> Some FileNotFoundError)"

text \<open>
  The steps of writing a file, one at a time, so that a run can be stopped between two of
  them. \<open>open(p, "w")\<close> walks to the file's directory, then creates the file or empties
  the regular file that is there; it raises on a directory and on a link to nothing.
  \<open>write\<close> appends to what the file holds.
\<close>

datatype fs_op = OpenWrite fspath | WriteText fspath string | CloseFile fspath

fun exec_op :: "fs_op \<Rightarrow> filesystem \<Rightarrow> py_error + filesystem" where
  "exec_op (OpenWrite p) fs =
     (case walk_dirs fs [] (butlast p) of
        Some e \<Rightarrow> Inl e
      | None \<Rightarrow>
          (case map_of fs p of
             Some Dir \<Rightarrow> Inl IsADirectoryError
           | Some DanglingLink \<Rightarrow> Inl FileNotFoundError
           | _ \<Rightarrow> Inr (AList.update p (File []) fs)))"
| "exec_op (WriteText p t) fs =
     (case map_of fs p of
        Some (File s) \<Rightarrow> Inr (AList.update p (File (s @ t)) fs)
      | Some Dir \<Rightarrow> Inl IsADirectoryError
      | _ \<Rightarrow> Inl FileNotFoundError)"
| "exec_op (CloseFile p) fs = Inr fs"

fun run_ops :: "fs_op list \<Rightarrow> filesystem \<Rightarrow> py_error + filesystem" where
  "run_ops [] fs = Inr fs"
| "run_ops (op # ops) fs =
     (case exec_op op fs of Inl e \<Rightarrow> Inl e | Inr fs' \<Rightarrow> run_ops ops fs')"

section \<open>metadata.py: the registry document\<close>

definition get_metadata_file :: "py_env \<Rightarrow> fspath" where
  "get_metadata_file env = share_dir env @ [''kimi.json'']"

record WorkDirMeta =
  path :: string
  last_session_id :: "string option"

record Metadata =
  work_dirs :: "WorkDirMeta list"

text \<open>
  \<open>WorkDirMeta.sessions_dir\<close>: the path of line 27, and the property itself, which
  creates the directory before it returns the path.
\<close>

definition sessions_dir_path :: "py_env \<Rightarrow> WorkDirMeta \<Rightarrow> fspath" where
  "sessions_dir_path env w = share_dir env @ [''sessions'', md5_hexdigest env (path w)]"

definition sessions_dir ::
  "py_env \<Rightarrow> WorkDirMeta \<Rightarrow> filesystem \<Rightarrow> py_error + (fspath \<times> filesystem)" where
  "sessions_dir env w fs =
     (case mkdir_parents [] (sessions_dir_path env w) fs of
        Inl e \<Rightarrow> Inl e
      | Inr fs' \<Rightarrow> Inr (sessions_dir_path env w, fs'))"

text \<open>
  Pydantic's validation of the two models from decoded JSON. \<open>path\<close> is required and a
  string; \<open>last_session_id\<close> is a string or \<open>null\<close> and defaults to \<open>None\<close>;
  \<open>work_dirs\<close> is a list of records and defaults to the empty list; keys the models do
  not declare are ignored. \<open>Metadata(**data)\<close> raises \<open>TypeError\<close> when \<open>data\<close> is not
  a mapping.
\<close>

fun validate_WorkDirMeta :: "json \<Rightarrow> WorkDirMeta option" where
  "validate_WorkDirMeta (JObj kvs) =
     (case map_of kvs ''path'' of
        Some (JStr p) \<Rightarrow>
          (case map_of kvs ''last_session_id'' of
             None \<Rightarrow> Some \<lparr>path = p, last_session_id = None\<rparr>
           | Some JNull \<Rightarrow> Some \<lparr>path = p, last_session_id = None\<rparr>
           | Some (JStr s) \<Rightarrow> Some \<lparr>path = p, last_session_id = Some s\<rparr>
           | Some _ \<Rightarrow> None)
      | _ \<Rightarrow> None)"
| "validate_WorkDirMeta _ = None"

fun validate_all :: "json list \<Rightarrow> WorkDirMeta list option" where
  "validate_all [] = Some []"
| "validate_all (x # xs) =
     (case validate_WorkDirMeta x of
        None \<Rightarrow> None
      | Some w \<Rightarrow> (case validate_all xs of None \<Rightarrow> None | Some ws \<Rightarrow> Some (w # ws)))"

definition Metadata_init :: "json \<Rightarrow> py_error + Metadata" where
  "Metadata_init data =
     (case data of
        JObj kvs \<Rightarrow>
          (case map_of kvs ''work_dirs'' of
             None \<Rightarrow> Inr \<lparr>work_dirs = []\<rparr>
           | Some (JArr xs) \<Rightarrow>
               (case validate_all xs of
                  None \<Rightarrow> Inl ValidationError
                | Some ws \<Rightarrow> Inr \<lparr>work_dirs = ws\<rparr>)
           | Some _ \<Rightarrow> Inl ValidationError)
      | _ \<Rightarrow> Inl TypeError)"

text \<open>\<open>metadata.model_dump()\<close>.\<close>

definition dump_WorkDirMeta :: "WorkDirMeta \<Rightarrow> json" where
  "dump_WorkDirMeta w =
     JObj [(''path'', JStr (path w)),
           (''last_session_id'', case last_session_id w of None \<Rightarrow> JNull | Some s \<Rightarrow> JStr s)]"

definition model_dump :: "Metadata \<Rightarrow> json" where
  "model_dump m = JObj [(''work_dirs'', JArr (map dump_WorkDirMeta (work_dirs m)))]"

definition load_metadata :: "py_env \<Rightarrow> filesystem \<Rightarrow> py_error + Metadata" where
  "load_metadata env fs =
     (if \<not> path_exists fs (get_metadata_file env) then Inr \<lparr>work_dirs = []\<rparr>
      else case open_read fs (get_metadata_file env) of
             Inl e \<Rightarrow> Inl e
           | Inr t \<Rightarrow>
               (case json_loads env t of
                  None \<Rightarrow> Inl JSONDecodeError
                | Some data \<Rightarrow> Metadata_init data))"

text \<open>
  \<open>save_metadata\<close>: the file operations it performs, in order, and their effect when all
  of them run.
\<close>

definition save_metadata_ops :: "py_env \<Rightarrow> Metadata \<Rightarrow> fs_op list" where
  "save_metadata_ops env m =
     [OpenWrite (get_metadata_file env),
      WriteText (get_metadata_file env) (json_dumps env (model_dump m)),
      CloseFile (get_metadata_file env)]"

definition save_metadata :: "py_env \<Rightarrow> Metadata \<Rightarrow> filesystem \<Rightarrow> py_error + filesystem" where
  "save_metadata env m fs = run_ops (save_metadata_ops env m) fs"

section \<open>metadata.py: sessions\<close>

record Session =
  id' :: string
  work_dir :: string
  history_file :: fspath

text \<open>
  \<open>sessions_dir / f"{session_id}.jsonl"\<close>: pathlib cuts the string at every \<open>/\<close> and
  drops the empty pieces and the pieces \<open>.\<close>; it keeps \<open>..\<close>. A string that starts with
  \<open>/\<close> is an absolute path and replaces the directory.
\<close>

fun split_slash :: "string \<Rightarrow> string list" where
  "split_slash [] = [[]]"
| "split_slash (c # cs) =
     (if c = CHR ''/'' then [] # split_slash cs
      else (case split_slash cs of [] \<Rightarrow> [[c]] | l # ls \<Rightarrow> (c # l) # ls))"

definition path_parts :: "string \<Rightarrow> string list" where
  "path_parts seg = filter (\<lambda>c. c \<noteq> [] \<and> c \<noteq> ''.'') (split_slash seg)"

definition is_absolute :: "string \<Rightarrow> bool" where
  "is_absolute seg = (case seg of [] \<Rightarrow> False | c # cs \<Rightarrow> c = CHR ''/'')"

definition joinpath :: "fspath \<Rightarrow> string \<Rightarrow> fspath" where
  "joinpath d seg = (if is_absolute seg then path_parts seg else d @ path_parts seg)"

text \<open>
  \<open>exists()\<close> of such a path: the system walks the components from the directory
  \<open>cur\<close>. Each step needs \<open>cur\<close> to be a directory, and \<open>..\<close> steps to its parent. The
  path exists when the walk gets through and ends at something that exists. A string
  with a NUL character is no path for the system: \<open>stat\<close> raises \<open>ValueError\<close>, which
  \<open>exists()\<close> answers with \<open>False\<close>.
\<close>

fun resolve :: "filesystem \<Rightarrow> fspath \<Rightarrow> string list \<Rightarrow> fspath option" where
  "resolve fs cur [] = Some cur"
| "resolve fs cur (c # cs) =
     (if cur = [] \<or> map_of fs cur = Some Dir
      then resolve fs (if c = ''..'' then butlast cur else cur @ [c]) cs
      else None)"

definition joined_exists :: "filesystem \<Rightarrow> fspath \<Rightarrow> string \<Rightarrow> bool" where
  "joined_exists fs d seg =
     (CHR 0x00 \<notin> set seg \<and>
      (case resolve fs (if is_absolute seg then [] else d) (path_parts seg) of
         None \<Rightarrow> False
       | Some q \<Rightarrow> q = [] \<or> path_exists fs q))"

text \<open>
  \<open>next((wd for wd in metadata.work_dirs if wd.path == str(work_dir)), None)\<close> is
  \<open>find\<close>; the assignment to \<open>work_dir_meta.last_session_id\<close> changes that first match
  inside the list.
\<close>

fun set_last_session_id :: "string \<Rightarrow> string \<Rightarrow> WorkDirMeta list \<Rightarrow> WorkDirMeta list" where
  "set_last_session_id wd sid [] = []"
| "set_last_session_id wd sid (w # ws) =
     (if path w = wd then w\<lparr>last_session_id := Some sid\<rparr> # ws
      else w # set_last_session_id wd sid ws)"

definition load_session ::
  "py_env \<Rightarrow> string \<Rightarrow> string \<Rightarrow> filesystem \<Rightarrow> py_error + (Session option \<times> filesystem)" where
  "load_session env wd sid fs =
     (case load_metadata env fs of
        Inl e \<Rightarrow> Inl e
      | Inr metadata \<Rightarrow>
          (case find (\<lambda>w. path w = wd) (work_dirs metadata) of
             None \<Rightarrow> Inr (None, fs)
           | Some work_dir_meta \<Rightarrow>
               (case sessions_dir env work_dir_meta fs of
                  Inl e \<Rightarrow> Inl e
                | Inr (sd, fs1) \<Rightarrow>
                    if \<not> joined_exists fs1 sd (sid @ ''.jsonl'') then Inr (None, fs1)
                    else
                      (case save_metadata env
                              \<lparr>work_dirs = set_last_session_id wd sid (work_dirs metadata)\<rparr> fs1 of
                         Inl e \<Rightarrow> Inl e
                       | Inr fs2 \<Rightarrow>
                           Inr (Some \<lparr>id' = sid, work_dir = wd,
                                      history_file = joinpath sd (sid @ ''.jsonl'')\<rparr>,
                                fs2)))))"

section \<open>metadata.py: session summaries and the listing\<close>

text \<open>
  Reading a text file line by line: universal newlines turn \<open>\r\n\<close> and \<open>\r\<close> into
  \<open>\n\<close>, and the text is cut after every \<open>\n\<close>. The model's lines come without their
  \<open>\n\<close>, which \<open>line.strip()\<close> removes first thing, and a text that ends in \<open>\n\<close> has
  no line after it.
\<close>

fun universal_newlines :: "string \<Rightarrow> string" where
  "universal_newlines (c # d # cs) =
     (if c = CHR 0x0D \<and> d = CHR 0x0A then CHR 0x0A # universal_newlines cs
      else if c = CHR 0x0D then CHR 0x0A # universal_newlines (d # cs)
      else c # universal_newlines (d # cs))"
| "universal_newlines [c] = (if c = CHR 0x0D then [CHR 0x0A] else [c])"
| "universal_newlines [] = []"

fun split_lines :: "string \<Rightarrow> string list" where
  "split_lines [] = []"
| "split_lines (c # cs) =
     (if c = CHR 0x0A then [] # split_lines cs
      else (case split_lines cs of [] \<Rightarrow> [[c]] | l # ls \<Rightarrow> (c # l) # ls))"

definition file_lines :: "string \<Rightarrow> string list" where
  "file_lines t = split_lines (universal_newlines t)"

record session_info =
  timestamp :: int
  num_messages :: nat
  num_checkpoints :: nat
  first_message :: "string option"

text \<open>\<open>str(part_dict["text"])\<close>: a string is itself, anything else goes through \<open>str()\<close>.\<close>

definition str_of :: "py_env \<Rightarrow> json \<Rightarrow> string" where
  "str_of env v = (case v of JStr s \<Rightarrow> s | _ \<Rightarrow> py_str env v)"

text \<open>Lines 119 to 131: the text of a message's content, \<open>None\<close> where it has none.\<close>

definition content_text :: "py_env \<Rightarrow> json \<Rightarrow> string option" where
  "content_text env content =
     (case content of
        JStr s \<Rightarrow> Some s
      | JArr content_list \<Rightarrow>
          (case content_list of
             [] \<Rightarrow> None
           | first_part # _ \<Rightarrow>
               (case first_part of
                  JStr s \<Rightarrow> Some s
                | JObj part_dict \<Rightarrow>
                    (case map_of part_dict ''text'' of
                       None \<Rightarrow> None
                     | Some v \<Rightarrow> Some (str_of env v))
                | _ \<Rightarrow> None))
      | _ \<Rightarrow> None)"

definition is_system_wrapped :: "string \<Rightarrow> bool" where
  "is_system_wrapped t = (prefix ''<system>'' t \<and> suffix ''</system>'' t)"

text \<open>
  The body of the loop for one decoded record (lines 106 to 139). \<open>data.get\<close> raises
  \<open>AttributeError\<close> on a value that is not an object, before \<open>info\<close> is touched.
\<close>

definition scan_record :: "py_env \<Rightarrow> json \<Rightarrow> session_info \<Rightarrow> py_error + session_info" where
  "scan_record env data info =
     (case data of
        JObj d \<Rightarrow>
          (let role = map_of d ''role'' in
           if role = Some (JStr ''_checkpoint'')
           then Inr (info\<lparr>num_checkpoints := num_checkpoints info + 1\<rparr>)
           else if role = Some (JStr ''user'') \<or> role = Some (JStr ''assistant'')
           then
             (let info1 = info\<lparr>num_messages := num_messages info + 1\<rparr> in
              if first_message info1 = None \<and> role = Some (JStr ''user'')
              then
                (case map_of d ''content'' of
                   None \<Rightarrow> Inr info1
                 | Some content \<Rightarrow>
                     if \<not> truthy content then Inr info1
                     else
                       (case content_text env content of
                          None \<Rightarrow> Inr info1
                        | Some t \<Rightarrow>
                            if is_system_wrapped t then Inr info1
                            else Inr (info1\<lparr>first_message := Some (py_strip (take 50 t))\<rparr>)))
              else Inr info1)
           else Inr info)
      | _ \<Rightarrow> Inl AttributeError)"

text \<open>
  The loop over the lines inside \<open>try\<close>. It returns \<open>info\<close> as the loop left it and the
  exception that ended it, if one did.
\<close>

fun scan_lines :: "py_env \<Rightarrow> string list \<Rightarrow> session_info \<Rightarrow> session_info \<times> py_error option" where
  "scan_lines env [] info = (info, None)"
| "scan_lines env (l # ls) info =
     (if py_strip l = [] then scan_lines env ls info
      else
        (case json_loads env (py_strip l) of
           None \<Rightarrow> (info, Some JSONDecodeError)
         | Some data \<Rightarrow>
             (case scan_record env data info of
                Inl e \<Rightarrow> (info, Some e)
              | Inr info' \<Rightarrow> scan_lines env ls info')))"

definition initial_info :: "py_env \<Rightarrow> fspath \<Rightarrow> session_info" where
  "initial_info env session_file =
     \<lparr>timestamp = st_mtime env session_file, num_messages = 0, num_checkpoints = 0,
      first_message = None\<rparr>"

text \<open>
  \<open>open(session_file, encoding="utf-8")\<close> and \<open>for line in f\<close>: the lines the loop is
  given, and the exception the reader raises after them when the bytes do not decode.
\<close>

definition open_lines :: "filesystem \<Rightarrow> fspath \<Rightarrow> py_error + (string list \<times> py_error option)" where
  "open_lines fs p =
     (case map_of fs p of
        None \<Rightarrow> Inl FileNotFoundError
      | Some DanglingLink \<Rightarrow> Inl FileNotFoundError
      | Some Dir \<Rightarrow> Inl IsADirectoryError
      | Some (Undecodable ls) \<Rightarrow> Inr (ls, Some UnicodeDecodeError)
      | Some (File s) \<Rightarrow> Inr (file_lines s, None))"

text \<open>
  \<open>_get_session_info\<close>. \<open>session_file.stat()\<close> stands before the \<open>try\<close> and raises for
  a path that does not exist. Inside it, \<open>except Exception\<close> catches what \<open>open\<close>, the
  reader and the loop raise and logs a warning; \<open>info\<close> is returned as it is then.
\<close>

definition read_session_info :: "py_env \<Rightarrow> filesystem \<Rightarrow> fspath \<Rightarrow> session_info" where
  "read_session_info env fs session_file =
     (case open_lines fs session_file of
        Inl e \<Rightarrow> initial_info env session_file
      | Inr (ls, e) \<Rightarrow> fst (scan_lines env ls (initial_info env session_file)))"

definition get_session_info :: "py_env \<Rightarrow> filesystem \<Rightarrow> fspath \<Rightarrow> py_error + session_info" where
  "get_session_info env fs session_file =
     (if \<not> path_exists fs session_file then Inl FileNotFoundError
      else Inr (read_session_info env fs session_file))"

text \<open>
  \<open>sessions_dir.glob("*.jsonl")\<close>: the entries directly in the directory whose name ends
  in \<open>.jsonl\<close>, in scan order, links to nothing among them. \<open>Path.stem\<close> (Python 3.12 and 3.13): the name up to its last
  dot, when that dot is neither the first nor the last character.
\<close>

definition glob_jsonl :: "filesystem \<Rightarrow> fspath \<Rightarrow> fspath list" where
  "glob_jsonl fs d =
     filter (\<lambda>p. p \<noteq> [] \<and> butlast p = d \<and> suffix ''.jsonl'' (last p)) (map fst fs)"

definition rfind_dot :: "string \<Rightarrow> nat option" where
  "rfind_dot s =
     (case filter (\<lambda>i. s ! i = CHR ''.'') (rev [0..<length s]) of
        [] \<Rightarrow> None
      | i # _ \<Rightarrow> Some i)"

definition stem :: "fspath \<Rightarrow> string" where
  "stem p =
     (case rfind_dot (last p) of
        None \<Rightarrow> last p
      | Some i \<Rightarrow> if 0 < i \<and> i + 1 < length (last p) then take i (last p) else last p)"

record listed_info = session_info +
  is_current :: bool

type_synonym session_entry = "string \<times> fspath \<times> listed_info"

text \<open>
  The loop of \<open>list_sessions\<close> over the files the glob yields: a file whose stem has an
  underscore is skipped, every other file is summarised and appended.
\<close>

fun collect_sessions ::
  "py_env \<Rightarrow> filesystem \<Rightarrow> WorkDirMeta \<Rightarrow> fspath list \<Rightarrow> py_error + session_entry list" where
  "collect_sessions env fs work_dir_meta [] = Inr []"
| "collect_sessions env fs work_dir_meta (session_file # rest) =
     (if CHR ''_'' \<in> set (stem session_file) then collect_sessions env fs work_dir_meta rest
      else
        (case get_session_info env fs session_file of
           Inl e \<Rightarrow> Inl e
         | Inr info \<Rightarrow>
             (case collect_sessions env fs work_dir_meta rest of
                Inl e \<Rightarrow> Inl e
              | Inr sessions \<Rightarrow>
                  Inr ((stem session_file, session_file,
                        session_info.extend info
                          \<lparr>is_current =
                             (Some (stem session_file) = last_session_id work_dir_meta)\<rparr>)
                       # sessions))))"

text \<open>
  \<open>sessions.sort(key=..., reverse=True)\<close>: descending by timestamp, entries with equal
  timestamps keeping their order.
\<close>

definition sort_sessions :: "session_entry list \<Rightarrow> session_entry list" where
  "sort_sessions ss = rev (sort_key (\<lambda>(i, f, info). timestamp info) (rev ss))"

definition list_sessions ::
  "py_env \<Rightarrow> string \<Rightarrow> filesystem \<Rightarrow> py_error + (session_entry list \<times> filesystem)" where
  "list_sessions env wd fs =
     (case load_metadata env fs of
        Inl e \<Rightarrow> Inl e
      | Inr metadata \<Rightarrow>
          (case find (\<lambda>w. path w = wd) (work_dirs metadata) of
             None \<Rightarrow> Inr ([], fs)
           | Some work_dir_meta \<Rightarrow>
               (case sessions_dir env work_dir_meta fs of
                  Inl e \<Rightarrow> Inl e
                | Inr (sd, fs1) \<Rightarrow>
                    (case collect_sessions env fs1 work_dir_meta (glob_jsonl fs1 sd) of
                       Inl e \<Rightarrow> Inl e
                     | Inr sessions \<Rightarrow> Inr (sort_sessions sessions, fs1)))))"

section \<open>The specification's notions\<close>

text \<open>
  The metadata document's shape: a JSON object with a list of working-directory
  records, each an object with a \<open>path\<close> that is a string and a \<open>last_session_id\<close> that
  is a string or \<open>null\<close>. Both models declare defaults, so a document may leave out
  \<open>work_dirs\<close> and a record may leave out \<open>last_session_id\<close>.
\<close>

fun is_str :: "json \<Rightarrow> bool" where
  "is_str (JStr s) = True"
| "is_str _ = False"

definition record_shape :: "json \<Rightarrow> bool" where
  "record_shape j =
     (case j of
        JObj kvs \<Rightarrow>
          (case map_of kvs ''path'' of None \<Rightarrow> False | Some v \<Rightarrow> is_str v)
          \<and> (case map_of kvs ''last_session_id'' of None \<Rightarrow> True | Some v \<Rightarrow> v = JNull \<or> is_str v)
      | _ \<Rightarrow> False)"

definition document_shape :: "json \<Rightarrow> bool" where
  "document_shape data =
     (case data of
        JObj kvs \<Rightarrow>
          (case map_of kvs ''work_dirs'' of
             None \<Rightarrow> True
           | Some (JArr xs) \<Rightarrow> list_all record_shape xs
           | Some _ \<Rightarrow> False)
      | _ \<Rightarrow> False)"

text \<open>
  The preview, in the words of the catalog's description: the records of a log are what
  its lines decode to, up to the first line that does not decode to an object; a user
  message's text is the text of its content, where it has content; the preview is the
  text of the first user message that is not a wrapped system message, cut to 50
  characters and stripped.
\<close>

fun decoded_records :: "py_env \<Rightarrow> string list \<Rightarrow> json list" where
  "decoded_records env [] = []"
| "decoded_records env (l # ls) =
     (if py_strip l = [] then decoded_records env ls
      else
        (case json_loads env (py_strip l) of
           Some (JObj d) \<Rightarrow> JObj d # decoded_records env ls
         | _ \<Rightarrow> []))"

definition user_text :: "py_env \<Rightarrow> json \<Rightarrow> string option" where
  "user_text env data =
     (case data of
        JObj d \<Rightarrow>
          if map_of d ''role'' = Some (JStr ''user'')
          then (case map_of d ''content'' of
                  None \<Rightarrow> None
                | Some c \<Rightarrow> if truthy c then content_text env c else None)
          else None
      | _ \<Rightarrow> None)"

definition spec_preview :: "py_env \<Rightarrow> json list \<Rightarrow> string option" where
  "spec_preview env records =
     (case filter (\<lambda>t. \<not> is_system_wrapped t) (List.map_filter (user_text env) records) of
        [] \<Rightarrow> None
      | t # _ \<Rightarrow> Some (py_strip (take 50 t)))"

text \<open>The lines of a session file that the summary gets to read.\<close>

definition lines_read :: "filesystem \<Rightarrow> fspath \<Rightarrow> string list" where
  "lines_read fs f = (case open_lines fs f of Inl e \<Rightarrow> [] | Inr (ls, e) \<Rightarrow> ls)"

text \<open>The entry the listing holds for a live session file.\<close>

definition session_entry :: "py_env \<Rightarrow> filesystem \<Rightarrow> WorkDirMeta \<Rightarrow> fspath \<Rightarrow> session_entry" where
  "session_entry env fs work_dir_meta session_file =
     (stem session_file, session_file,
      session_info.extend (read_session_info env fs session_file)
        \<lparr>is_current = (Some (stem session_file) = last_session_id work_dir_meta)\<rparr>)"

text \<open>A log record of a user message with the given content.\<close>

definition user_message :: "json \<Rightarrow> json" where
  "user_message c = JObj [(''role'', JStr ''user''), (''content'', c)]"

text \<open>The file an operation works on.\<close>

fun op_target :: "fs_op \<Rightarrow> fspath" where
  "op_target (OpenWrite p) = p"
| "op_target (WriteText p t) = p"
| "op_target (CloseFile p) = p"

section \<open>An installation to run the definitions on\<close>

text \<open>
  One user's share directory with a registry of two working directories and, for the
  first, two sessions and the backup a revert left. The environment's functions are
  Python's on the texts and values that occur here (\<open>json.loads\<close> raising on every other
  text).
\<close>

definition join_lines :: "string list \<Rightarrow> string" where
  "join_lines ls = (case ls of [] \<Rightarrow> [] | l # rest \<Rightarrow> l @ concat (map (\<lambda>x. CHR 0x0A # x) rest))"

definition demo_share :: fspath where
  "demo_share = [''home'', ''u'', ''.kimi'']"

definition demo_registry :: Metadata where
  "demo_registry =
     \<lparr>work_dirs = [\<lparr>path = ''/home/u/proj'', last_session_id = Some ''s1''\<rparr>,
                  \<lparr>path = ''/home/u/other'', last_session_id = None\<rparr>]\<rparr>"

definition demo_registry_s2 :: Metadata where
  "demo_registry_s2 =
     \<lparr>work_dirs = [\<lparr>path = ''/home/u/proj'', last_session_id = Some ''s2''\<rparr>,
                  \<lparr>path = ''/home/u/other'', last_session_id = None\<rparr>]\<rparr>"

definition demo_json :: "string \<Rightarrow> json" where
  "demo_json sid =
     JObj [(''work_dirs'',
            JArr [JObj [(''path'', JStr ''/home/u/proj''), (''last_session_id'', JStr sid)],
                  JObj [(''path'', JStr ''/home/u/other''), (''last_session_id'', JNull)]])]"

definition demo_doc :: "string \<Rightarrow> string" where
  \<open>demo_doc sid =
     join_lines
       [''{'',
        ''  "work_dirs": ['',
        ''    {'',
        ''      "path": "/home/u/proj",'',
        ''      "last_session_id": "'' @ sid @ ''"'',
        ''    },'',
        ''    {'',
        ''      "path": "/home/u/other",'',
        ''      "last_session_id": null'',
        ''    }'',
        ''  ]'',
        ''}'']\<close>

definition demo_doc_empty :: string where
  \<open>demo_doc_empty = join_lines [''{'', ''  "work_dirs": []'', ''}'']\<close>

definition line_user_hi :: string where
  \<open>line_user_hi = ''{"role": "user", "content": "hi"}''\<close>

definition line_checkpoint :: string where
  \<open>line_checkpoint = ''{"role": "_checkpoint"}''\<close>

definition line_assistant :: string where
  \<open>line_assistant = ''{"role": "assistant", "content": "hello there"}''\<close>

definition line_system :: string where
  \<open>line_system = ''{"role": "user", "content": "<system>x</system>"}''\<close>

definition line_parts :: string where
  \<open>line_parts = ''{"role": "user", "content": [{"text": "hello"}]}''\<close>

definition demo_loads :: "string \<Rightarrow> json option" where
  \<open>demo_loads t =
     (if t = demo_doc ''s1'' then Some (demo_json ''s1'')
      else if t = demo_doc ''s2'' then Some (demo_json ''s2'')
      else if t = demo_doc_empty then Some (JObj [(''work_dirs'', JArr [])])
      else if t = ''{}'' then Some (JObj [])
      else if t = ''[]'' then Some (JArr [])
      else if t = ''{"work_dirs": 3}'' then Some (JObj [(''work_dirs'', JInt 3)])
      else if t = line_user_hi then Some (JObj [(''role'', JStr ''user''), (''content'', JStr ''hi'')])
      else if t = line_checkpoint then Some (JObj [(''role'', JStr ''_checkpoint'')])
      else if t = line_assistant
        then Some (JObj [(''role'', JStr ''assistant''), (''content'', JStr ''hello there'')])
      else if t = line_system
        then Some (JObj [(''role'', JStr ''user''), (''content'', JStr ''<system>x</system>'')])
      else if t = line_parts
        then Some (JObj [(''role'', JStr ''user''),
                         (''content'', JArr [JObj [(''text'', JStr ''hello'')]])])
      else None)\<close>

definition demo_dumps :: "json \<Rightarrow> string" where
  "demo_dumps v =
     (if v = demo_json ''s1'' then demo_doc ''s1''
      else if v = demo_json ''s2'' then demo_doc ''s2''
      else if v = demo_json ''./s2'' then demo_doc ''./s2''
      else if v = JObj [(''work_dirs'', JArr [])] then demo_doc_empty
      else [])"

definition demo_md5 :: "string \<Rightarrow> string" where
  "demo_md5 t =
     (if t = ''/home/u/proj'' then ''4fafce67053eea06f159a78f7ef15755''
      else if t = ''/home/u/other'' then ''86bdcde6b90d6149998c607ff1410fdf''
      else [])"

definition demo_sessions :: fspath where
  "demo_sessions = demo_share @ [''sessions'', ''4fafce67053eea06f159a78f7ef15755'']"

definition demo_mtime :: "fspath \<Rightarrow> int" where
  "demo_mtime p =
     (if p = demo_sessions @ [''s1.jsonl''] then 100
      else if p = demo_sessions @ [''s2.jsonl''] then 200
      else 50)"

definition demo_env :: py_env where
  "demo_env =
     \<lparr>share_dir = demo_share, json_loads = demo_loads, json_dumps = demo_dumps,
      md5_hexdigest = demo_md5, py_str = (\<lambda>v. []), st_mtime = demo_mtime\<rparr>"

definition demo_log_s1 :: string where
  "demo_log_s1 = join_lines [line_user_hi, line_checkpoint, ''not json'', line_assistant] @ [CHR 0x0A]"

definition demo_log_s2 :: string where
  "demo_log_s2 = join_lines [line_system, line_parts, line_assistant] @ [CHR 0x0A]"

definition demo_fs :: "string \<Rightarrow> filesystem" where
  "demo_fs doc =
     [([''home''], Dir),
      ([''home'', ''u''], Dir),
      (demo_share, Dir),
      (demo_share @ [''kimi.json''], File doc),
      (demo_share @ [''sessions''], Dir),
      (demo_sessions, Dir),
      (demo_sessions @ [''s1.jsonl''], File demo_log_s1),
      (demo_sessions @ [''s1_1.jsonl''], File demo_log_s2),
      (demo_sessions @ [''s2.jsonl''], File demo_log_s2)]"



text \<open>The share directory before the first run: no registry document yet.\<close>

definition demo_fresh :: filesystem where
  "demo_fresh = [([''home''], Dir), ([''home'', ''u''], Dir), (demo_share, Dir)]"

text \<open>A context that is the number of its checkpoints, for the two command handlers.\<close>

definition demo_ops :: "nat soul_ops" where
  "demo_ops =
     \<lparr>n_checkpoints = (\<lambda>c. c), revert_to = (\<lambda>k c. Inr k), compact_context = (\<lambda>c. Inr 1)\<rparr>"


section \<open>The registry of meta commands\<close>
















section \<open>The clear and compact commands\<close>

text \<open>
  Claim C9. On a context with no checkpoint, \<open>clear\<close> prints that the context is empty
  and returns the context as it was; \<open>revert_to\<close> is called only on a context that has a
  checkpoint, and then with 0, and the handler ends as \<open>revert_to(0)\<close> does. \<open>compact\<close>
  has the same guard in front of \<open>compact_context\<close>.
\<close>

theorem clear_guards_revert:
  "(n_checkpoints ops c = 0 \<longrightarrow>
      clear ops (KimiSoul c) = (Inr c, [ConsolePrint ContextIsEmpty]))
   \<and> (0 < n_checkpoints ops c \<longrightarrow>
        fst (clear ops (KimiSoul c)) = revert_to ops 0 c
        \<and> hd (snd (clear ops (KimiSoul c))) = RevertTo 0)
   \<and> (RevertTo k \<in> set (snd (clear ops s)) \<longleftrightarrow>
        (\<exists>c'. s = KimiSoul c' \<and> 0 < n_checkpoints ops c' \<and> k = 0))
   \<and> (n_checkpoints ops c = 0 \<longrightarrow>
        compact ops (KimiSoul c) = (Inr c, [ConsolePrint ContextIsEmpty]))
   \<and> (0 < n_checkpoints ops c \<longrightarrow>
        fst (compact ops (KimiSoul c)) = compact_context ops c)
   \<and> (CompactContext \<in> set (snd (compact ops s)) \<longleftrightarrow>
        (\<exists>c'. s = KimiSoul c' \<and> 0 < n_checkpoints ops c'))"
proof -
  have a: "n_checkpoints ops c = 0 \<longrightarrow>
      clear ops (KimiSoul c) = (Inr c, [ConsolePrint ContextIsEmpty])"
    by (simp add: clear_def)
  have b: "0 < n_checkpoints ops c \<longrightarrow>
        fst (clear ops (KimiSoul c)) = revert_to ops 0 c
        \<and> hd (snd (clear ops (KimiSoul c))) = RevertTo 0"
    by (cases "revert_to ops 0 c") (simp_all add: clear_def)
  have c: "RevertTo k \<in> set (snd (clear ops s)) \<longleftrightarrow>
        (\<exists>c'. s = KimiSoul c' \<and> 0 < n_checkpoints ops c' \<and> k = 0)"
  proof (cases s)
    case (KimiSoul c')
    then show ?thesis
      by (cases "revert_to ops 0 c'") (auto simp: clear_def)
  next
    case OtherSoul
    then show ?thesis by (simp add: clear_def)
  qed
  have d: "n_checkpoints ops c = 0 \<longrightarrow>
        compact ops (KimiSoul c) = (Inr c, [ConsolePrint ContextIsEmpty])"
    by (simp add: compact_def)
  have e: "0 < n_checkpoints ops c \<longrightarrow>
        fst (compact ops (KimiSoul c)) = compact_context ops c"
    by (cases "compact_context ops c") (simp_all add: compact_def)
  have f: "CompactContext \<in> set (snd (compact ops s)) \<longleftrightarrow>
        (\<exists>c'. s = KimiSoul c' \<and> 0 < n_checkpoints ops c')"
  proof (cases s)
    case (KimiSoul c')
    then show ?thesis
      by (cases "compact_context ops c'") (auto simp: compact_def)
  next
    case OtherSoul
    then show ?thesis by (simp add: compact_def)
  qed
  from a b c d e f show ?thesis by blast
qed

theorem clear_guards_revert_witness:
  "clear demo_ops (KimiSoul 0) = (Inr 0, [ConsolePrint ContextIsEmpty])
   \<and> fst (clear demo_ops (KimiSoul 3)) = Inr 0
   \<and> hd (snd (clear demo_ops (KimiSoul 3))) = RevertTo 0
   \<and> RevertTo 0 \<notin> set (snd (clear demo_ops (KimiSoul 0)))
   \<and> compact demo_ops (KimiSoul 0) = (Inr 0, [ConsolePrint ContextIsEmpty])
   \<and> fst (compact demo_ops (KimiSoul 3)) = Inr 1"
proof -
  have z: "n_checkpoints demo_ops 0 = 0" and p: "0 < n_checkpoints demo_ops 3"
    by (simp_all add: demo_ops_def)
  note t0 = clear_guards_revert[of demo_ops 0 0 "KimiSoul 0"]
  note t3 = clear_guards_revert[of demo_ops 3 0 "KimiSoul 3"]
  from t0 z have "clear demo_ops (KimiSoul 0) = (Inr 0, [ConsolePrint ContextIsEmpty])"
    and "compact demo_ops (KimiSoul 0) = (Inr 0, [ConsolePrint ContextIsEmpty])"
    and "RevertTo 0 \<notin> set (snd (clear demo_ops (KimiSoul 0)))"
    by simp_all
  moreover from t3 p have "fst (clear demo_ops (KimiSoul 3)) = revert_to demo_ops 0 3"
    and "hd (snd (clear demo_ops (KimiSoul 3))) = RevertTo 0"
    and "fst (compact demo_ops (KimiSoul 3)) = compact_context demo_ops 3"
    by simp_all
  ultimately show ?thesis by (simp add: demo_ops_def)
qed

section \<open>The registry document\<close>

subsection \<open>Validation and the file operations\<close>

lemma validate_dump: "validate_WorkDirMeta (dump_WorkDirMeta w) = Some w"
  by (cases "last_session_id w") (simp_all add: dump_WorkDirMeta_def)

lemma validate_all_dump: "validate_all (map dump_WorkDirMeta ws) = Some ws"
  by (induction ws) (simp_all add: validate_dump)

lemma Metadata_init_dump: "Metadata_init (model_dump m) = Inr m"
  by (simp add: Metadata_init_def model_dump_def validate_all_dump)

lemma exec_OpenWrite:
  assumes "exec_op (OpenWrite p) fs = Inr fs1"
  shows "map_of fs1 = (map_of fs)(p \<mapsto> File [])"
  using assms
  by (auto simp: update_conv' split: option.splits node.splits if_splits)

lemma exec_WriteText:
  assumes "exec_op (WriteText p t) fs = Inr fs1"
  shows "\<exists>s. map_of fs p = Some (File s) \<and> map_of fs1 = (map_of fs)(p \<mapsto> File (s @ t))"
  using assms
  by (auto simp: update_conv' split: option.splits node.splits if_splits)

lemma save_metadata_result:
  assumes "save_metadata env m fs = Inr fs'"
  shows "map_of fs' = (map_of fs)(get_metadata_file env \<mapsto> File (json_dumps env (model_dump m)))"
proof -
  let ?doc = "get_metadata_file env"
  from assms obtain fs1 where o: "exec_op (OpenWrite ?doc) fs = Inr fs1"
    and w: "exec_op (WriteText ?doc (json_dumps env (model_dump m))) fs1 = Inr fs'"
    by (auto simp: save_metadata_def save_metadata_ops_def split: sum.splits)
  from exec_OpenWrite[OF o] exec_WriteText[OF w] show ?thesis by auto
qed

lemma save_metadata_succeeds_iff:
  "(\<exists>fs'. save_metadata env m fs = Inr fs') \<longleftrightarrow>
     walk_dirs fs [] (butlast (get_metadata_file env)) = None
     \<and> map_of fs (get_metadata_file env) \<noteq> Some Dir
     \<and> map_of fs (get_metadata_file env) \<noteq> Some DanglingLink"
  by (auto simp: save_metadata_def save_metadata_ops_def update_conv'
      split: sum.splits option.splits node.splits)

lemma validate_iff: "(validate_WorkDirMeta j \<noteq> None) = record_shape j"
  by (cases j) (auto simp: record_shape_def split: option.splits json.splits)

lemma validate_all_iff: "(validate_all xs \<noteq> None) = list_all record_shape xs"
  by (induction xs) (auto simp: validate_iff[symmetric] split: option.splits)

lemma Metadata_init_shape:
  "Metadata_init data =
     (if document_shape data then Inr (projr (Metadata_init data))
      else Inl (case data of JObj kvs \<Rightarrow> ValidationError | _ \<Rightarrow> TypeError))"
  using validate_all_iff
  by (auto simp: Metadata_init_def document_shape_def split: json.splits option.splits)

subsection \<open>The installation's registry document\<close>

lemma demo_doc_neq: "demo_doc ''s1'' \<noteq> []" "demo_doc ''s2'' \<noteq> []" "demo_doc ''s1'' \<noteq> demo_doc ''s2''"
  by (simp_all add: demo_doc_def join_lines_def)

lemma demo_model_dump:
  "model_dump demo_registry = demo_json ''s1''" "model_dump demo_registry_s2 = demo_json ''s2''"
  by (simp_all add: model_dump_def demo_registry_def demo_registry_s2_def demo_json_def
      dump_WorkDirMeta_def)

lemma demo_doc_path: "get_metadata_file demo_env = [''home'', ''u'', ''.kimi'', ''kimi.json'']"
  by (simp add: get_metadata_file_def demo_env_def demo_share_def)

lemma demo_fs_doc: "map_of (demo_fs d) (get_metadata_file demo_env) = Some (File d)"
  by (simp add: demo_doc_path demo_fs_def demo_share_def)

lemma demo_fs_walk: "walk_dirs (demo_fs d) [] (butlast (get_metadata_file demo_env)) = None"
  by (simp add: demo_doc_path demo_fs_def demo_share_def)

lemma demo_codec_s2:
  "json_loads demo_env (json_dumps demo_env (model_dump demo_registry_s2))
     = Some (model_dump demo_registry_s2)"
  using demo_doc_neq
  by (simp add: demo_model_dump demo_env_def demo_dumps_def demo_loads_def demo_json_def)

lemma demo_codec_empty:
  "json_loads demo_env (json_dumps demo_env (model_dump \<lparr>work_dirs = []\<rparr>))
     = Some (model_dump \<lparr>work_dirs = []\<rparr>)"
  by (simp add: model_dump_def demo_env_def demo_dumps_def demo_loads_def demo_json_def
      demo_doc_def demo_doc_empty_def join_lines_def)

lemma demo_fresh_doc:
  "map_of demo_fresh (get_metadata_file demo_env) = None"
  "walk_dirs demo_fresh [] (butlast (get_metadata_file demo_env)) = None"
  by (simp_all add: demo_doc_path demo_fresh_def demo_share_def)

lemma demo_dumps_s2: "json_dumps demo_env (model_dump demo_registry_s2) = demo_doc ''s2''"
  by (simp add: demo_model_dump demo_env_def demo_dumps_def demo_json_def)

lemma demo_loads_empty: "json_loads demo_env [] = None"
  by (simp add: demo_env_def demo_loads_def demo_doc_def demo_doc_empty_def join_lines_def
      line_user_hi_def line_checkpoint_def line_assistant_def line_system_def line_parts_def)

lemma demo_load_s1: "load_metadata demo_env (demo_fs (demo_doc ''s1'')) = Inr demo_registry"
  by (simp add: load_metadata_def path_exists_def open_read_def demo_fs_doc)
    (simp add: demo_env_def demo_loads_def Metadata_init_def demo_json_def demo_registry_def)

subsection \<open>Saving and loading\<close>

text \<open>
  Claim C4. Whatever the registry holds (no record, one or many, each with a path and a
  last session id or none), a \<open>save_metadata\<close> that returns leaves a document from which
  \<open>load_metadata\<close> returns the registry that was saved. What is asked of the \<open>json\<close>
  module is that it reads back the document it wrote.
\<close>

theorem save_then_load_roundtrip:
  assumes "save_metadata env m fs = Inr fs'"
    and "json_loads env (json_dumps env (model_dump m)) = Some (model_dump m)"
  shows "load_metadata env fs' = Inr m"
  using save_metadata_result[OF assms(1)] assms(2)
  by (simp add: load_metadata_def path_exists_def open_read_def Metadata_init_dump)

theorem save_then_load_roundtrip_witness:
  "(\<exists>fs'. save_metadata demo_env demo_registry_s2 (demo_fs (demo_doc ''s1'')) = Inr fs'
      \<and> load_metadata demo_env fs' = Inr demo_registry_s2)
   \<and> (\<exists>fs'. save_metadata demo_env \<lparr>work_dirs = []\<rparr> demo_fresh = Inr fs'
      \<and> load_metadata demo_env fs' = Inr \<lparr>work_dirs = []\<rparr>)"
proof -
  have "\<exists>fs'. save_metadata demo_env demo_registry_s2 (demo_fs (demo_doc ''s1'')) = Inr fs'"
    by (simp add: save_metadata_succeeds_iff demo_fs_doc demo_fs_walk)
  then obtain fs1 where s1: "save_metadata demo_env demo_registry_s2 (demo_fs (demo_doc ''s1'')) = Inr fs1" ..
  have a: "load_metadata demo_env fs1 = Inr demo_registry_s2"
    by (rule save_then_load_roundtrip[OF s1 demo_codec_s2])
  have "\<exists>fs'. save_metadata demo_env \<lparr>work_dirs = []\<rparr> demo_fresh = Inr fs'"
    by (simp add: save_metadata_succeeds_iff demo_fresh_doc)
  then obtain fs2 where s2: "save_metadata demo_env \<lparr>work_dirs = []\<rparr> demo_fresh = Inr fs2" ..
  have b: "load_metadata demo_env fs2 = Inr \<lparr>work_dirs = []\<rparr>"
    by (rule save_then_load_roundtrip[OF s2 demo_codec_empty])
  from s1 a s2 b show ?thesis by blast
qed

text \<open>
  Claim C5. Without a metadata document \<open>load_metadata\<close> returns the empty registry. With
  one it raises where the text is not JSON (\<open>JSONDecodeError\<close>), where the JSON is not an
  object (\<open>TypeError\<close>) and where the object has not the document's shape
  (\<open>ValidationError\<close>); a document of that shape loads.
\<close>

theorem load_metadata_absent_or_malformed:
  "(\<not> path_exists fs (get_metadata_file env) \<longrightarrow> load_metadata env fs = Inr \<lparr>work_dirs = []\<rparr>)
   \<and> (map_of fs (get_metadata_file env) = Some Dir \<longrightarrow>
        load_metadata env fs = Inl IsADirectoryError)
   \<and> (map_of fs (get_metadata_file env) = Some (File t) \<and> json_loads env t = None \<longrightarrow>
        load_metadata env fs = Inl JSONDecodeError)
   \<and> (map_of fs (get_metadata_file env) = Some (File t) \<and> json_loads env t = Some data
        \<and> \<not> document_shape data \<longrightarrow>
        load_metadata env fs = Inl (case data of JObj kvs \<Rightarrow> ValidationError | _ \<Rightarrow> TypeError))
   \<and> (map_of fs (get_metadata_file env) = Some (File t) \<and> json_loads env t = Some data
        \<and> document_shape data \<longrightarrow>
        (\<exists>m. load_metadata env fs = Inr m))"
proof -
  have init: "Metadata_init data =
     (if document_shape data then Inr (projr (Metadata_init data))
      else Inl (case data of JObj kvs \<Rightarrow> ValidationError | _ \<Rightarrow> TypeError))"
    by (rule Metadata_init_shape)
  have a: "\<not> path_exists fs (get_metadata_file env) \<longrightarrow> load_metadata env fs = Inr \<lparr>work_dirs = []\<rparr>"
    by (simp add: load_metadata_def)
  have b: "map_of fs (get_metadata_file env) = Some Dir \<longrightarrow>
        load_metadata env fs = Inl IsADirectoryError"
    by (simp add: load_metadata_def path_exists_def open_read_def)
  have c: "map_of fs (get_metadata_file env) = Some (File t) \<and> json_loads env t = None \<longrightarrow>
        load_metadata env fs = Inl JSONDecodeError"
    by (simp add: load_metadata_def path_exists_def open_read_def)
  have d: "map_of fs (get_metadata_file env) = Some (File t) \<and> json_loads env t = Some data
      \<longrightarrow> load_metadata env fs = Metadata_init data"
    by (simp add: load_metadata_def path_exists_def open_read_def)
  from a b c d init show ?thesis by metis
qed

theorem load_metadata_absent_or_malformed_witness:
  \<open>load_metadata demo_env demo_fresh = Inr \<lparr>work_dirs = []\<rparr>
   \<and> load_metadata demo_env (demo_fs ''not json'') = Inl JSONDecodeError
   \<and> load_metadata demo_env (demo_fs ''[]'') = Inl TypeError
   \<and> load_metadata demo_env (demo_fs ''{"work_dirs": 3}'') = Inl ValidationError
   \<and> (\<exists>m. load_metadata demo_env (demo_fs (demo_doc ''s1'')) = Inr m)\<close>
proof -
  let ?bad = \<open>''{"work_dirs": 3}''\<close>
  have l1: "json_loads demo_env ''not json'' = None"
    by (simp add: demo_env_def demo_loads_def demo_doc_def demo_doc_empty_def join_lines_def
        line_user_hi_def line_checkpoint_def line_assistant_def line_system_def line_parts_def)
  have l2: "json_loads demo_env ''[]'' = Some (JArr [])"
    by (simp add: demo_env_def demo_loads_def demo_doc_def demo_doc_empty_def join_lines_def)
  have l3: "json_loads demo_env ?bad = Some (JObj [(''work_dirs'', JInt 3)])"
    by (simp add: demo_env_def demo_loads_def demo_doc_def demo_doc_empty_def join_lines_def)
  have l4: "json_loads demo_env (demo_doc ''s1'') = Some (demo_json ''s1'')"
    by (simp add: demo_env_def demo_loads_def)
  have s2: "\<not> document_shape (JArr [])" and s3: "\<not> document_shape (JObj [(''work_dirs'', JInt 3)])"
    and s4: "document_shape (demo_json ''s1'')"
    by (simp_all add: document_shape_def demo_json_def record_shape_def)
  have e: "\<not> path_exists demo_fresh (get_metadata_file demo_env)"
    by (simp add: path_exists_def demo_fresh_doc)
  from load_metadata_absent_or_malformed[of demo_fresh demo_env] e
  have "load_metadata demo_env demo_fresh = Inr \<lparr>work_dirs = []\<rparr>" by blast
  moreover from load_metadata_absent_or_malformed[of "demo_fs ''not json''" demo_env "''not json''"] l1
  have "load_metadata demo_env (demo_fs ''not json'') = Inl JSONDecodeError"
    by (simp add: demo_fs_doc)
  moreover from load_metadata_absent_or_malformed[of "demo_fs ''[]''" demo_env "''[]''" "JArr []"] l2 s2
  have "load_metadata demo_env (demo_fs ''[]'') = Inl TypeError"
    by (simp add: demo_fs_doc)
  moreover from load_metadata_absent_or_malformed[of "demo_fs ?bad" demo_env ?bad
      "JObj [(''work_dirs'', JInt 3)]"] l3 s3
  have "load_metadata demo_env (demo_fs ?bad) = Inl ValidationError"
    by (simp add: demo_fs_doc)
  moreover from load_metadata_absent_or_malformed[of "demo_fs (demo_doc ''s1'')" demo_env
      "demo_doc ''s1''" "demo_json ''s1''"] l4 s4
  have "\<exists>m. load_metadata demo_env (demo_fs (demo_doc ''s1'')) = Inr m"
    by (simp add: demo_fs_doc)
  ultimately show ?thesis by blast
qed

text \<open>
  Claim C3, as the code has it. \<open>save_metadata\<close> works on the metadata document itself and
  on no other path: it opens the document for writing, which empties it, and writes the
  serialized registry into it. A run that gets no further than the open leaves the
  document empty; a run that completes leaves exactly the serialized registry in it, and
  every other path as it was.
\<close>

theorem save_metadata_in_place:
  "hd (save_metadata_ops env m) = OpenWrite (get_metadata_file env)
   \<and> list_all (\<lambda>op. op_target op = get_metadata_file env) (save_metadata_ops env m)
   \<and> (run_ops (take 1 (save_metadata_ops env m)) fs = Inr fs1 \<longrightarrow>
        map_of fs1 = (map_of fs)(get_metadata_file env \<mapsto> File []))
   \<and> (save_metadata env m fs = Inr fs' \<longrightarrow>
        map_of fs' = (map_of fs)(get_metadata_file env \<mapsto> File (json_dumps env (model_dump m))))"
proof -
  have a: "run_ops (take 1 (save_metadata_ops env m)) fs = Inr fs1 \<longrightarrow>
        map_of fs1 = (map_of fs)(get_metadata_file env \<mapsto> File [])"
  proof
    assume "run_ops (take 1 (save_metadata_ops env m)) fs = Inr fs1"
    then have "exec_op (OpenWrite (get_metadata_file env)) fs = Inr fs1"
      by (simp add: save_metadata_ops_def split: sum.splits del: exec_op.simps)
    then show "map_of fs1 = (map_of fs)(get_metadata_file env \<mapsto> File [])"
      by (rule exec_OpenWrite)
  qed
  have b: "save_metadata env m fs = Inr fs' \<longrightarrow>
        map_of fs' = (map_of fs)(get_metadata_file env \<mapsto> File (json_dumps env (model_dump m)))"
    using save_metadata_result by blast
  from a b show ?thesis by (simp add: save_metadata_ops_def)
qed

theorem save_metadata_in_place_witness:
  "\<exists>fs1 fs'. run_ops (take 1 (save_metadata_ops demo_env demo_registry_s2))
                (demo_fs (demo_doc ''s1'')) = Inr fs1
     \<and> map_of fs1 (get_metadata_file demo_env) = Some (File [])
     \<and> save_metadata demo_env demo_registry_s2 (demo_fs (demo_doc ''s1'')) = Inr fs'
     \<and> map_of fs' (get_metadata_file demo_env) = Some (File (demo_doc ''s2''))"
proof -
  let ?doc = "get_metadata_file demo_env"
  let ?fs = "demo_fs (demo_doc ''s1'')"
  have "\<exists>fs1. run_ops (take 1 (save_metadata_ops demo_env demo_registry_s2)) ?fs = Inr fs1"
    by (simp add: save_metadata_ops_def demo_fs_doc demo_fs_walk)
  then obtain fs1 where r: "run_ops (take 1 (save_metadata_ops demo_env demo_registry_s2)) ?fs = Inr fs1" ..
  have "\<exists>fs'. save_metadata demo_env demo_registry_s2 ?fs = Inr fs'"
    by (simp add: save_metadata_succeeds_iff demo_fs_doc demo_fs_walk)
  then obtain fs' where s: "save_metadata demo_env demo_registry_s2 ?fs = Inr fs'" ..
  note t = save_metadata_in_place[of demo_env demo_registry_s2 ?fs fs1 fs']
  from t r have "map_of fs1 ?doc = Some (File [])" by simp
  moreover from t s have "map_of fs' ?doc = Some (File (demo_doc ''s2''))"
    by (simp add: demo_dumps_s2)
  ultimately show ?thesis using r s by blast
qed

text \<open>
  Claim C3 as stated fails: the first thing \<open>save_metadata\<close> does is open the live
  document for writing. Stopped right after that, the document that held a registry is
  empty, it is neither the old text nor the new one, and \<open>load_metadata\<close> raises on it.
\<close>

theorem save_metadata_in_place_counterexample:
  "\<exists>fs1. run_ops (take 1 (save_metadata_ops demo_env demo_registry_s2)) (demo_fs (demo_doc ''s1''))
            = Inr fs1
     \<and> hd (save_metadata_ops demo_env demo_registry_s2) = OpenWrite (get_metadata_file demo_env)
     \<and> open_read (demo_fs (demo_doc ''s1'')) (get_metadata_file demo_env) = Inr (demo_doc ''s1'')
     \<and> load_metadata demo_env (demo_fs (demo_doc ''s1'')) = Inr demo_registry
     \<and> open_read fs1 (get_metadata_file demo_env) = Inr []
     \<and> demo_doc ''s1'' \<noteq> []
     \<and> json_dumps demo_env (model_dump demo_registry_s2) \<noteq> []
     \<and> load_metadata demo_env fs1 = Inl JSONDecodeError"
proof -
  let ?doc = "get_metadata_file demo_env"
  let ?fs1 = "AList.update ?doc (File []) (demo_fs (demo_doc ''s1''))"
  have r: "run_ops (take 1 (save_metadata_ops demo_env demo_registry_s2)) (demo_fs (demo_doc ''s1''))
            = Inr ?fs1"
    by (simp add: save_metadata_ops_def demo_fs_doc demo_fs_walk)
  have m: "map_of ?fs1 ?doc = Some (File [])"
    by (simp add: update_conv')
  have l: "load_metadata demo_env ?fs1 = Inl JSONDecodeError"
    by (simp add: load_metadata_def path_exists_def open_read_def m demo_loads_empty)
  have o: "open_read (demo_fs (demo_doc ''s1'')) ?doc = Inr (demo_doc ''s1'')"
    by (simp add: open_read_def demo_fs_doc)
  have o1: "open_read ?fs1 ?doc = Inr []"
    by (simp add: open_read_def m)
  have h: "hd (save_metadata_ops demo_env demo_registry_s2) = OpenWrite ?doc"
    by (simp add: save_metadata_ops_def)
  from r h o demo_load_s1 o1 demo_doc_neq demo_dumps_s2 l show ?thesis by auto
qed

section \<open>The namespace directory\<close>

lemma map_of_snoc:
  "map_of (fs @ [(p, v)]) q = (case map_of fs q of Some x \<Rightarrow> Some x | None \<Rightarrow> if q = p then Some v else None)"
  by (simp add: map_add_def split: option.splits)

lemma mkdir_parents_keeps:
  "mkdir_parents base cs fs = Inr fs' \<Longrightarrow> map_of fs p = Some v \<Longrightarrow> map_of fs' p = Some v"
proof (induction cs arbitrary: base fs)
  case Nil
  then show ?case by simp
next
  case (Cons c cs)
  show ?case
  proof (cases "map_of fs (base @ [c])")
    case None
    with Cons.prems(1) have r: "mkdir_parents (base @ [c]) cs (fs @ [(base @ [c], Dir)]) = Inr fs'"
      by simp
    have "map_of (fs @ [(base @ [c], Dir)]) p = Some v"
      using Cons.prems(2) by (simp add: map_of_snoc del: map_of_append)
    from Cons.IH[OF r this] show ?thesis .
  next
    case (Some n)
    with Cons.prems(1) have "n = Dir" and r: "mkdir_parents (base @ [c]) cs fs = Inr fs'"
      by (cases n; simp)+
    from Cons.IH[OF r Cons.prems(2)] show ?thesis .
  qed
qed

lemma mkdir_parents_elsewhere:
  "mkdir_parents base cs fs = Inr fs' \<Longrightarrow> \<not> prefix p (base @ cs) \<Longrightarrow> map_of fs' p = map_of fs p"
proof (induction cs arbitrary: base fs)
  case Nil
  then show ?case by simp
next
  case (Cons c cs)
  have np: "\<not> prefix p ((base @ [c]) @ cs)" using Cons.prems(2) by simp
  have ne: "p \<noteq> base @ [c]" using Cons.prems(2) by (auto simp: prefix_def)
  show ?case
  proof (cases "map_of fs (base @ [c])")
    case None
    with Cons.prems(1) have r: "mkdir_parents (base @ [c]) cs (fs @ [(base @ [c], Dir)]) = Inr fs'"
      by simp
    from Cons.IH[OF r np] ne show ?thesis by (simp add: map_of_snoc del: map_of_append split: option.splits)
  next
    case (Some n)
    with Cons.prems(1) have "n = Dir" and r: "mkdir_parents (base @ [c]) cs fs = Inr fs'"
      by (cases n; simp)+
    from Cons.IH[OF r np] show ?thesis .
  qed
qed

lemma mkdir_parents_makes_dir:
  "mkdir_parents base cs fs = Inr fs' \<Longrightarrow> cs \<noteq> [] \<Longrightarrow> map_of fs' (base @ cs) = Some Dir"
proof (induction cs arbitrary: base fs)
  case Nil
  then show ?case by simp
next
  case (Cons c cs)
  obtain fs1 where r: "mkdir_parents (base @ [c]) cs fs1 = Inr fs'"
    and d: "map_of fs1 (base @ [c]) = Some Dir"
  proof (cases "map_of fs (base @ [c])")
    case None
    with Cons.prems(1) have "mkdir_parents (base @ [c]) cs (fs @ [(base @ [c], Dir)]) = Inr fs'"
      by simp
    moreover have "map_of (fs @ [(base @ [c], Dir)]) (base @ [c]) = Some Dir"
      using None by (simp add: map_of_snoc del: map_of_append)
    ultimately show ?thesis using that by blast
  next
    case (Some n)
    with Cons.prems(1) have "n = Dir" and "mkdir_parents (base @ [c]) cs fs = Inr fs'"
      by (cases n; simp)+
    with Some show ?thesis using that by blast
  qed
  show ?case
  proof (cases "cs = []")
    case True
    with r d show ?thesis by simp
  next
    case False
    from Cons.IH[OF r False] show ?thesis by simp
  qed
qed

lemma mkdir_parents_idem:
  "mkdir_parents base cs fs = Inr fs' \<Longrightarrow> mkdir_parents base cs fs' = Inr fs'"
proof (induction cs arbitrary: base fs)
  case Nil
  then show ?case by simp
next
  case (Cons c cs)
  obtain fs1 where r: "mkdir_parents (base @ [c]) cs fs1 = Inr fs'"
    and d: "map_of fs1 (base @ [c]) = Some Dir"
  proof (cases "map_of fs (base @ [c])")
    case None
    with Cons.prems(1) have "mkdir_parents (base @ [c]) cs (fs @ [(base @ [c], Dir)]) = Inr fs'"
      by simp
    moreover have "map_of (fs @ [(base @ [c], Dir)]) (base @ [c]) = Some Dir"
      using None by (simp add: map_of_snoc del: map_of_append)
    ultimately show ?thesis using that by blast
  next
    case (Some n)
    with Cons.prems(1) have "n = Dir" and "mkdir_parents (base @ [c]) cs fs = Inr fs'"
      by (cases n; simp)+
    with Some show ?thesis using that by blast
  qed
  have "map_of fs' (base @ [c]) = Some Dir"
    by (rule mkdir_parents_keeps[OF r d])
  with Cons.IH[OF r] show ?case by simp
qed

text \<open>
  Claim C8. The directory \<open>sessions_dir\<close> returns is the path computed from the share
  directory and the digest of the record's path, whatever the file system holds and
  whatever the record's last session id; a second evaluation returns the same directory
  and changes nothing. Two records have the same namespace exactly when the digests of
  their paths are equal, so distinct paths share a namespace only where the hash
  collides.
\<close>

theorem sessions_dir_stable:
  "(sessions_dir env w fs = Inr (d, fs') \<longrightarrow>
      d = sessions_dir_path env w \<and> sessions_dir env w fs' = Inr (d, fs')
      \<and> map_of fs' d = Some Dir)
   \<and> (sessions_dir env w fs = Inr (d, fs') \<and> sessions_dir env w fs2 = Inr (d2, fs2') \<longrightarrow> d = d2)
   \<and> (path w1 = path w2 \<longrightarrow> sessions_dir_path env w1 = sessions_dir_path env w2)
   \<and> (sessions_dir_path env w1 = sessions_dir_path env w2
        \<longleftrightarrow> md5_hexdigest env (path w1) = md5_hexdigest env (path w2))"
proof -
  have a: "sessions_dir env w fs = Inr (d, fs') \<longrightarrow>
      d = sessions_dir_path env w \<and> sessions_dir env w fs' = Inr (d, fs')
      \<and> map_of fs' d = Some Dir"
  proof
    assume h: "sessions_dir env w fs = Inr (d, fs')"
    then have m: "mkdir_parents [] (sessions_dir_path env w) fs = Inr fs'"
      and e: "d = sessions_dir_path env w"
      by (auto simp: sessions_dir_def split: sum.splits)
    have ne: "sessions_dir_path env w \<noteq> []" by (simp add: sessions_dir_path_def)
    from mkdir_parents_idem[OF m] mkdir_parents_makes_dir[OF m ne] e
    show "d = sessions_dir_path env w \<and> sessions_dir env w fs' = Inr (d, fs')
      \<and> map_of fs' d = Some Dir"
      by (simp add: sessions_dir_def)
  qed
  have b: "sessions_dir env w fs = Inr (d, fs') \<and> sessions_dir env w fs2 = Inr (d2, fs2') \<longrightarrow> d = d2"
    by (auto simp: sessions_dir_def split: sum.splits)
  have c: "path w1 = path w2 \<longrightarrow> sessions_dir_path env w1 = sessions_dir_path env w2"
    by (simp add: sessions_dir_path_def)
  have e: "sessions_dir_path env w1 = sessions_dir_path env w2
        \<longleftrightarrow> md5_hexdigest env (path w1) = md5_hexdigest env (path w2)"
    by (simp add: sessions_dir_path_def)
  from a b c e show ?thesis by blast
qed

theorem sessions_dir_stable_witness:
  "sessions_dir demo_env \<lparr>path = ''/home/u/proj'', last_session_id = Some ''s1''\<rparr> demo_fresh
     = Inr (demo_sessions, demo_fresh @ [(demo_share @ [''sessions''], Dir), (demo_sessions, Dir)])
   \<and> sessions_dir demo_env \<lparr>path = ''/home/u/proj'', last_session_id = Some ''s1''\<rparr>
        (demo_fresh @ [(demo_share @ [''sessions''], Dir), (demo_sessions, Dir)])
     = Inr (demo_sessions, demo_fresh @ [(demo_share @ [''sessions''], Dir), (demo_sessions, Dir)])
   \<and> sessions_dir_path demo_env \<lparr>path = ''/home/u/proj'', last_session_id = None\<rparr> = demo_sessions
   \<and> sessions_dir_path demo_env \<lparr>path = ''/home/u/other'', last_session_id = None\<rparr> \<noteq> demo_sessions"
proof -
  let ?w = "\<lparr>path = ''/home/u/proj'', last_session_id = Some ''s1''\<rparr>"
  let ?w1 = "\<lparr>path = ''/home/u/proj'', last_session_id = None\<rparr>"
  let ?w2 = "\<lparr>path = ''/home/u/other'', last_session_id = None\<rparr>"
  let ?fs' = "demo_fresh @ [(demo_share @ [''sessions''], Dir), (demo_sessions, Dir)]"
  have p: "sessions_dir_path demo_env ?w = demo_sessions"
    by (simp add: sessions_dir_path_def demo_env_def demo_md5_def demo_sessions_def)
  have r: "sessions_dir demo_env ?w demo_fresh = Inr (demo_sessions, ?fs')"
    by code_simp
  have h: "md5_hexdigest demo_env (path ?w2) \<noteq> md5_hexdigest demo_env (path ?w)"
    by (simp add: demo_env_def demo_md5_def)
  note t1 = sessions_dir_stable[of demo_env ?w demo_fresh demo_sessions ?fs' demo_fresh
      demo_sessions ?fs' ?w1 ?w]
  note t2 = sessions_dir_stable[of demo_env ?w demo_fresh demo_sessions ?fs' demo_fresh
      demo_sessions ?fs' ?w2 ?w]
  from t1 r have "sessions_dir demo_env ?w ?fs' = Inr (demo_sessions, ?fs')" by blast
  moreover from t1 p have "sessions_dir_path demo_env ?w1 = demo_sessions" by simp
  moreover from t2 h p have "sessions_dir_path demo_env ?w2 \<noteq> demo_sessions" by simp
  ultimately show ?thesis using r by blast
qed

section \<open>Resuming a session\<close>

lemma find_set_last_session_id:
  "find (\<lambda>w. path w = wd) ws = Some w \<Longrightarrow>
     find (\<lambda>w. path w = wd) (set_last_session_id wd sid ws) = Some (w\<lparr>last_session_id := Some sid\<rparr>)"
  by (induction ws) (auto split: if_splits)

lemma doc_not_in_sessions_path:
  "\<not> prefix (get_metadata_file env) ([] @ sessions_dir_path env w)"
  by (simp add: get_metadata_file_def sessions_dir_path_def)

lemma history_not_in_sessions_path:
  "\<not> prefix (sessions_dir_path env w @ [x]) ([] @ sessions_dir_path env w)"
  by (auto dest: prefix_length_le)

lemma sessions_dir_frame:
  assumes "sessions_dir env w fs = Inr (sd, fs1)"
  shows "sd = sessions_dir_path env w"
    and "map_of fs1 (get_metadata_file env) = map_of fs (get_metadata_file env)"
    and "path_exists fs1 (sd @ [x]) = path_exists fs (sd @ [x])"
    and "map_of fs1 sd = Some Dir"
proof -
  from assms have m: "mkdir_parents [] (sessions_dir_path env w) fs = Inr fs1"
    and e: "sd = sessions_dir_path env w"
    by (auto simp: sessions_dir_def split: sum.splits)
  show "sd = sessions_dir_path env w" by (rule e)
  show "map_of fs1 (get_metadata_file env) = map_of fs (get_metadata_file env)"
    by (rule mkdir_parents_elsewhere[OF m doc_not_in_sessions_path])
  show "path_exists fs1 (sd @ [x]) = path_exists fs (sd @ [x])"
    unfolding path_exists_def e
    using mkdir_parents_elsewhere[OF m history_not_in_sessions_path] by simp
  have "sessions_dir_path env w \<noteq> []" by (simp add: sessions_dir_path_def)
  from mkdir_parents_makes_dir[OF m this] show "map_of fs1 sd = Some Dir"
    by (simp add: e)
qed

lemma split_slash_single: "CHR ''/'' \<notin> set s \<Longrightarrow> split_slash s = [s]"
  by (induction s) auto

lemma jsonl_name_plain:
  "sid @ ''.jsonl'' \<noteq> []" "sid @ ''.jsonl'' \<noteq> ''.''" "sid @ ''.jsonl'' \<noteq> ''..''"
proof -
  have "length (sid @ ''.jsonl'') \<ge> 6" by simp
  then show "sid @ ''.jsonl'' \<noteq> []" "sid @ ''.jsonl'' \<noteq> ''.''" "sid @ ''.jsonl'' \<noteq> ''..''"
    by (auto simp del: length_append)
qed

lemma path_parts_single:
  "CHR ''/'' \<notin> set sid \<Longrightarrow> path_parts (sid @ ''.jsonl'') = [sid @ ''.jsonl'']"
  using jsonl_name_plain[of sid] by (simp add: path_parts_def split_slash_single)

lemma not_absolute_single: "CHR ''/'' \<notin> set sid \<Longrightarrow> \<not> is_absolute (sid @ ''.jsonl'')"
  by (cases sid) (auto simp: is_absolute_def)

lemma joinpath_single:
  "CHR ''/'' \<notin> set sid \<Longrightarrow> joinpath d (sid @ ''.jsonl'') = d @ [sid @ ''.jsonl'']"
  by (simp add: joinpath_def not_absolute_single path_parts_single)

lemma joined_exists_single:
  assumes "CHR ''/'' \<notin> set sid" and "map_of fs d = Some Dir"
  shows "joined_exists fs d (sid @ ''.jsonl'')
     = (CHR 0x00 \<notin> set sid \<and> path_exists fs (d @ [sid @ ''.jsonl'']))"
  using assms jsonl_name_plain[of sid]
  by (simp add: joined_exists_def not_absolute_single path_parts_single)

lemma demo_sessions_dir_proj:
  "sessions_dir demo_env \<lparr>path = ''/home/u/proj'', last_session_id = Some ''s1''\<rparr>
     (demo_fs (demo_doc ''s1'')) = Inr (demo_sessions, demo_fs (demo_doc ''s1''))"
  by code_simp

lemma demo_find_proj:
  "find (\<lambda>w. path w = ''/home/u/proj'') (work_dirs demo_registry)
     = Some \<lparr>path = ''/home/u/proj'', last_session_id = Some ''s1''\<rparr>"
  by (simp add: demo_registry_def)

text \<open>
  Claim C7. With a registry that loads: for a working directory the registry does not
  list, \<open>load_session\<close> returns \<open>None\<close> and touches nothing; for one it lists, it returns
  \<open>None\<close> when \<open>session-id.jsonl\<close>, joined to the namespace directory as pathlib joins
  it, does not exist, which for a session id without \<open>/\<close> is the file of that name in
  the namespace; whenever it returns \<open>None\<close> the metadata document is what it was. Only
  when it returns a session has it saved the registry, with the record's last session id
  set to the given id, and then the session's history file is that joined path, which
  exists.
\<close>

theorem load_session_unavailable:
  assumes "load_metadata env fs = Inr m"
  shows
  "(wd \<notin> path ` set (work_dirs m) \<longrightarrow> load_session env wd sid fs = Inr (None, fs))
   \<and> (find (\<lambda>w. path w = wd) (work_dirs m) = Some w \<and> sessions_dir env w fs = Inr (sd, fs1)
        \<and> \<not> joined_exists fs1 sd (sid @ ''.jsonl'') \<longrightarrow>
        load_session env wd sid fs = Inr (None, fs1))
   \<and> (CHR ''/'' \<notin> set sid
        \<and> find (\<lambda>w. path w = wd) (work_dirs m) = Some w \<and> sessions_dir env w fs = Inr (sd, fs1)
        \<and> \<not> path_exists fs (sd @ [sid @ ''.jsonl'']) \<longrightarrow>
        load_session env wd sid fs = Inr (None, fs1))
   \<and> (load_session env wd sid fs = Inr (None, fs') \<longrightarrow>
        map_of fs' (get_metadata_file env) = map_of fs (get_metadata_file env))
   \<and> (load_session env wd sid fs = Inr (Some s, fs') \<longrightarrow>
        (\<exists>w' fs1'. find (\<lambda>w. path w = wd) (work_dirs m) = Some w'
           \<and> sessions_dir env w' fs = Inr (sessions_dir_path env w', fs1')
           \<and> joined_exists fs1' (sessions_dir_path env w') (sid @ ''.jsonl'')
           \<and> history_file s = joinpath (sessions_dir_path env w') (sid @ ''.jsonl'')
           \<and> find (\<lambda>w. path w = wd) (set_last_session_id wd sid (work_dirs m))
               = Some (w'\<lparr>last_session_id := Some sid\<rparr>))
        \<and> id' s = sid \<and> work_dir s = wd
        \<and> map_of fs' (get_metadata_file env)
            = Some (File (json_dumps env
                (model_dump \<lparr>work_dirs = set_last_session_id wd sid (work_dirs m)\<rparr>))))
   \<and> (CHR ''/'' \<notin> set sid \<and> load_session env wd sid fs = Inr (Some s, fs') \<longrightarrow>
        (\<exists>w'. find (\<lambda>w. path w = wd) (work_dirs m) = Some w'
           \<and> history_file s = sessions_dir_path env w' @ [sid @ ''.jsonl''])
        \<and> path_exists fs (history_file s))"
proof -
  let ?P = "\<lambda>w. path w = wd"
  let ?doc = "get_metadata_file env"
  let ?seg = "sid @ ''.jsonl''"
  have a: "wd \<notin> path ` set (work_dirs m) \<longrightarrow> load_session env wd sid fs = Inr (None, fs)"
  proof
    assume "wd \<notin> path ` set (work_dirs m)"
    then have "find ?P (work_dirs m) = None" by (auto simp: find_None_iff)
    then show "load_session env wd sid fs = Inr (None, fs)"
      using assms by (simp add: load_session_def)
  qed
  have b: "find ?P (work_dirs m) = Some w \<and> sessions_dir env w fs = Inr (sd, fs1)
        \<and> \<not> joined_exists fs1 sd ?seg \<longrightarrow>
        load_session env wd sid fs = Inr (None, fs1)"
    using assms by (simp add: load_session_def)
  have b': "CHR ''/'' \<notin> set sid
        \<and> find ?P (work_dirs m) = Some w \<and> sessions_dir env w fs = Inr (sd, fs1)
        \<and> \<not> path_exists fs (sd @ [?seg]) \<longrightarrow>
        load_session env wd sid fs = Inr (None, fs1)"
  proof
    assume h: "CHR ''/'' \<notin> set sid
        \<and> find ?P (work_dirs m) = Some w \<and> sessions_dir env w fs = Inr (sd, fs1)
        \<and> \<not> path_exists fs (sd @ [?seg])"
    then have sdir: "sessions_dir env w fs = Inr (sd, fs1)" by simp
    from h have "\<not> joined_exists fs1 sd ?seg"
      using joined_exists_single[of sid fs1 sd] sessions_dir_frame(3,4)[OF sdir] by simp
    with h b show "load_session env wd sid fs = Inr (None, fs1)" by simp
  qed
  have c: "load_session env wd sid fs = Inr (None, fs') \<longrightarrow> map_of fs' ?doc = map_of fs ?doc"
  proof
    assume h: "load_session env wd sid fs = Inr (None, fs')"
    show "map_of fs' ?doc = map_of fs ?doc"
    proof (cases "find ?P (work_dirs m)")
      case None
      with h assms show ?thesis by (simp add: load_session_def)
    next
      case (Some w')
      with h assms obtain sd' where "sessions_dir env w' fs = Inr (sd', fs')"
        by (auto simp: load_session_def split: sum.splits if_splits)
      then show ?thesis by (rule sessions_dir_frame(2))
    qed
  qed
  have key: "\<exists>w' fs1'. find ?P (work_dirs m) = Some w'
      \<and> sessions_dir env w' fs = Inr (sessions_dir_path env w', fs1')
      \<and> joined_exists fs1' (sessions_dir_path env w') ?seg
      \<and> save_metadata env \<lparr>work_dirs = set_last_session_id wd sid (work_dirs m)\<rparr> fs1' = Inr fs'
      \<and> s = \<lparr>id' = sid, work_dir = wd,
              history_file = joinpath (sessions_dir_path env w') ?seg\<rparr>"
    if h: "load_session env wd sid fs = Inr (Some s, fs')"
  proof -
    from h assms obtain w' sd' fs1' where f: "find ?P (work_dirs m) = Some w'"
      and sdir: "sessions_dir env w' fs = Inr (sd', fs1')"
      and ex: "joined_exists fs1' sd' ?seg"
      and sv: "save_metadata env \<lparr>work_dirs = set_last_session_id wd sid (work_dirs m)\<rparr> fs1' = Inr fs'"
      and s: "s = \<lparr>id' = sid, work_dir = wd, history_file = joinpath sd' ?seg\<rparr>"
      by (auto simp: load_session_def split: sum.splits if_splits option.splits)
    from sessions_dir_frame(1)[OF sdir] f sdir ex sv s show ?thesis by blast
  qed
  have d: "load_session env wd sid fs = Inr (Some s, fs') \<longrightarrow>
        (\<exists>w' fs1'. find ?P (work_dirs m) = Some w'
           \<and> sessions_dir env w' fs = Inr (sessions_dir_path env w', fs1')
           \<and> joined_exists fs1' (sessions_dir_path env w') ?seg
           \<and> history_file s = joinpath (sessions_dir_path env w') ?seg
           \<and> find ?P (set_last_session_id wd sid (work_dirs m))
               = Some (w'\<lparr>last_session_id := Some sid\<rparr>))
        \<and> id' s = sid \<and> work_dir s = wd
        \<and> map_of fs' ?doc
            = Some (File (json_dumps env
                (model_dump \<lparr>work_dirs = set_last_session_id wd sid (work_dirs m)\<rparr>)))"
  proof
    assume h: "load_session env wd sid fs = Inr (Some s, fs')"
    from key[OF h] obtain w' fs1' where f: "find ?P (work_dirs m) = Some w'"
      and sdir: "sessions_dir env w' fs = Inr (sessions_dir_path env w', fs1')"
      and ex: "joined_exists fs1' (sessions_dir_path env w') ?seg"
      and sv: "save_metadata env \<lparr>work_dirs = set_last_session_id wd sid (work_dirs m)\<rparr> fs1' = Inr fs'"
      and s: "s = \<lparr>id' = sid, work_dir = wd,
              history_file = joinpath (sessions_dir_path env w') ?seg\<rparr>"
      by blast
    have "map_of fs' ?doc
            = Some (File (json_dumps env
                (model_dump \<lparr>work_dirs = set_last_session_id wd sid (work_dirs m)\<rparr>)))"
      using save_metadata_result[OF sv] by simp
    moreover have "id' s = sid" "work_dir s = wd"
      "history_file s = joinpath (sessions_dir_path env w') ?seg"
      using s by simp_all
    ultimately show "(\<exists>w' fs1'. find ?P (work_dirs m) = Some w'
           \<and> sessions_dir env w' fs = Inr (sessions_dir_path env w', fs1')
           \<and> joined_exists fs1' (sessions_dir_path env w') ?seg
           \<and> history_file s = joinpath (sessions_dir_path env w') ?seg
           \<and> find ?P (set_last_session_id wd sid (work_dirs m))
               = Some (w'\<lparr>last_session_id := Some sid\<rparr>))
        \<and> id' s = sid \<and> work_dir s = wd
        \<and> map_of fs' ?doc
            = Some (File (json_dumps env
                (model_dump \<lparr>work_dirs = set_last_session_id wd sid (work_dirs m)\<rparr>)))"
      using f sdir ex find_set_last_session_id[OF f] by blast
  qed
  have e: "CHR ''/'' \<notin> set sid \<and> load_session env wd sid fs = Inr (Some s, fs') \<longrightarrow>
        (\<exists>w'. find ?P (work_dirs m) = Some w'
           \<and> history_file s = sessions_dir_path env w' @ [?seg])
        \<and> path_exists fs (history_file s)"
  proof
    assume h: "CHR ''/'' \<notin> set sid \<and> load_session env wd sid fs = Inr (Some s, fs')"
    then have ns: "CHR ''/'' \<notin> set sid" and l: "load_session env wd sid fs = Inr (Some s, fs')"
      by simp_all
    from key[OF l] obtain w' fs1' where f: "find ?P (work_dirs m) = Some w'"
      and sdir: "sessions_dir env w' fs = Inr (sessions_dir_path env w', fs1')"
      and ex: "joined_exists fs1' (sessions_dir_path env w') ?seg"
      and s: "s = \<lparr>id' = sid, work_dir = wd,
              history_file = joinpath (sessions_dir_path env w') ?seg\<rparr>"
      by blast
    have hf: "history_file s = sessions_dir_path env w' @ [?seg]"
      using s joinpath_single[OF ns] by simp
    have "path_exists fs (sessions_dir_path env w' @ [?seg])"
      using ex joined_exists_single[OF ns sessions_dir_frame(4)[OF sdir]]
        sessions_dir_frame(3)[OF sdir] by simp
    with f hf show "(\<exists>w'. find ?P (work_dirs m) = Some w'
           \<and> history_file s = sessions_dir_path env w' @ [?seg])
        \<and> path_exists fs (history_file s)" by simp
  qed
  from a b b' c d e show ?thesis by blast
qed

theorem load_session_unavailable_witness:
  "load_session demo_env ''/tmp'' ''s2'' (demo_fs (demo_doc ''s1''))
     = Inr (None, demo_fs (demo_doc ''s1''))
   \<and> load_session demo_env ''/home/u/proj'' ''s3'' (demo_fs (demo_doc ''s1''))
       = Inr (None, demo_fs (demo_doc ''s1''))
   \<and> load_session demo_env ''/home/u/proj'' ''nope/../s2'' (demo_fs (demo_doc ''s1''))
       = Inr (None, demo_fs (demo_doc ''s1''))
   \<and> (\<exists>s fs'. load_session demo_env ''/home/u/proj'' ''s2'' (demo_fs (demo_doc ''s1''))
                 = Inr (Some s, fs')
        \<and> history_file s = demo_sessions @ [''s2.jsonl'']
        \<and> map_of fs' (get_metadata_file demo_env) = Some (File (demo_doc ''s2'')))
   \<and> (\<exists>s fs'. load_session demo_env ''/home/u/proj'' ''./s2'' (demo_fs (demo_doc ''s1''))
                 = Inr (Some s, fs')
        \<and> history_file s = demo_sessions @ [''s2.jsonl'']
        \<and> map_of fs' (get_metadata_file demo_env) = Some (File (demo_doc ''./s2'')))"
proof -
  let ?fs = "demo_fs (demo_doc ''s1'')"
  let ?w = "\<lparr>path = ''/home/u/proj'', last_session_id = Some ''s1''\<rparr>"
  note t = load_session_unavailable[OF demo_load_s1]
  have n: "''/tmp'' \<notin> path ` set (work_dirs demo_registry)"
    by (simp add: demo_registry_def)
  from t[of "''/tmp''" "''s2''"] n
  have a: "load_session demo_env ''/tmp'' ''s2'' ?fs = Inr (None, ?fs)" by blast
  have ne: "\<not> path_exists ?fs (demo_sessions @ [''s3'' @ ''.jsonl''])"
    by code_simp
  have ns: "CHR ''/'' \<notin> set ''s3''" "CHR ''/'' \<notin> set ''s2''" by simp_all
  from t[of "''/home/u/proj''" "''s3''" ?w demo_sessions ?fs] demo_find_proj demo_sessions_dir_proj
    ne ns
  have b: "load_session demo_env ''/home/u/proj'' ''s3'' ?fs = Inr (None, ?fs)" by blast
  have nj: "\<not> joined_exists ?fs demo_sessions (''nope/../s2'' @ ''.jsonl'')"
    by code_simp
  from t[of "''/home/u/proj''" "''nope/../s2''" ?w demo_sessions ?fs] demo_find_proj
    demo_sessions_dir_proj nj
  have b2: "load_session demo_env ''/home/u/proj'' ''nope/../s2'' ?fs = Inr (None, ?fs)" by blast
  have p: "sessions_dir_path demo_env ?w = demo_sessions"
    by (simp add: sessions_dir_path_def demo_env_def demo_md5_def demo_sessions_def)
  define s where "s = \<lparr>id' = ''s2'', work_dir = ''/home/u/proj'',
    history_file = demo_sessions @ [''s2.jsonl'']\<rparr>"
  define fs' where "fs' = AList.update (get_metadata_file demo_env) (File (demo_doc ''s2'')) ?fs"
  have l: "load_session demo_env ''/home/u/proj'' ''s2'' ?fs = Inr (Some s, fs')"
    unfolding s_def fs'_def by code_simp
  have sl: "\<lparr>work_dirs = set_last_session_id ''/home/u/proj'' ''s2'' (work_dirs demo_registry)\<rparr>
      = demo_registry_s2"
    by (simp add: demo_registry_def demo_registry_s2_def)
  from t[where wd = "''/home/u/proj''" and sid = "''s2''" and s = s and fs' = fs'] l ns
  have c: "history_file s = demo_sessions @ [''s2.jsonl'']"
    and c': "map_of fs' (get_metadata_file demo_env) = Some (File (demo_doc ''s2''))"
    using demo_find_proj p sl demo_dumps_s2 by auto
  define s2 where "s2 = \<lparr>id' = ''./s2'', work_dir = ''/home/u/proj'',
    history_file = demo_sessions @ [''s2.jsonl'']\<rparr>"
  define fs2 where "fs2 = AList.update (get_metadata_file demo_env) (File (demo_doc ''./s2'')) ?fs"
  have l2: "load_session demo_env ''/home/u/proj'' ''./s2'' ?fs = Inr (Some s2, fs2)"
    unfolding s2_def fs2_def by code_simp
  have j: "joinpath demo_sessions (''./s2'' @ ''.jsonl'') = demo_sessions @ [''s2.jsonl'']"
    by code_simp
  have d2: "json_dumps demo_env
      (model_dump \<lparr>work_dirs = set_last_session_id ''/home/u/proj'' ''./s2'' (work_dirs demo_registry)\<rparr>)
      = demo_doc ''./s2''"
    by code_simp
  from t[where wd = "''/home/u/proj''" and sid = "''./s2''" and s = s2 and fs' = fs2] l2
  have e: "history_file s2 = demo_sessions @ [''s2.jsonl'']"
    and e': "map_of fs2 (get_metadata_file demo_env) = Some (File (demo_doc ''./s2''))"
    using demo_find_proj p j d2 by auto
  from a b b2 l c c' l2 e e' show ?thesis by blast
qed

section \<open>Session summaries\<close>

lemma length_py_strip: "length (py_strip s) \<le> length s"
proof -
  have "length (py_strip s) \<le> length (dropWhile py_isspace s)"
    unfolding py_strip_def
    using length_dropWhile_le[of py_isspace "rev (dropWhile py_isspace s)"] by simp
  also have "\<dots> \<le> length s" by (rule length_dropWhile_le)
  finally show ?thesis .
qed

lemma spec_preview_Nil: "spec_preview env [] = None"
  by (simp add: spec_preview_def map_filter_simps)

lemma spec_preview_Cons:
  "spec_preview env (r # rs) =
     (case user_text env r of
        None \<Rightarrow> spec_preview env rs
      | Some t \<Rightarrow> if is_system_wrapped t then spec_preview env rs else Some (py_strip (take 50 t)))"
  by (simp add: spec_preview_def map_filter_simps split: option.splits)

lemma scan_record_object:
  "\<exists>info'. scan_record env (JObj d) info = Inr info'
     \<and> first_message info' =
         (case first_message info of
            Some p \<Rightarrow> Some p
          | None \<Rightarrow>
              (case user_text env (JObj d) of
                 None \<Rightarrow> None
               | Some t \<Rightarrow> if is_system_wrapped t then None else Some (py_strip (take 50 t))))"
  by (auto simp: scan_record_def user_text_def Let_def split: option.splits)

lemma scan_record_not_object:
  "(\<forall>d. data \<noteq> JObj d) \<Longrightarrow> scan_record env data info = Inl AttributeError"
  by (cases data) (simp_all add: scan_record_def)

lemma scan_lines_preview:
  "first_message (fst (scan_lines env ls info)) =
     (case first_message info of
        Some p \<Rightarrow> Some p
      | None \<Rightarrow> spec_preview env (decoded_records env ls))"
proof (induction ls arbitrary: info)
  case Nil
  show ?case by (simp add: spec_preview_Nil split: option.splits)
next
  case (Cons l ls)
  show ?case
  proof (cases "py_strip l = []")
    case True
    with Cons.IH show ?thesis by (simp cong: option.case_cong)
  next
    case False
    show ?thesis
    proof (cases "json_loads env (py_strip l)")
      case None
      with False show ?thesis by (simp add: spec_preview_Nil split: option.splits)
    next
      case (Some data)
      show ?thesis
      proof (cases "\<exists>d. data = JObj d")
        case True
        then obtain d where d: "data = JObj d" ..
        from scan_record_object[of env d info] obtain info' where
          r: "scan_record env (JObj d) info = Inr info'" and
          f: "first_message info' =
         (case first_message info of
            Some p \<Rightarrow> Some p
          | None \<Rightarrow>
              (case user_text env (JObj d) of
                 None \<Rightarrow> None
               | Some t \<Rightarrow> if is_system_wrapped t then None else Some (py_strip (take 50 t))))"
          by blast
        from False Some d r have
          "scan_lines env (l # ls) info = scan_lines env ls info'" by simp
        moreover from False Some d have
          "decoded_records env (l # ls) = JObj d # decoded_records env ls" by simp
        ultimately show ?thesis
          using Cons.IH[of info'] f
          by (simp add: spec_preview_Cons split: option.splits)
      next
        case no: False
        then have "scan_record env data info = Inl AttributeError"
          by (simp add: scan_record_not_object)
        moreover from no have "decoded_records env (l # ls) = []"
          using False Some by (cases data) simp_all
        ultimately show ?thesis
          using False Some by (simp add: spec_preview_Nil split: option.splits)
      qed
    qed
  qed
qed

lemma spec_preview_length: "spec_preview env rs = Some p \<Longrightarrow> length p \<le> 50"
proof (induction rs)
  case Nil
  then show ?case by (simp add: spec_preview_Nil)
next
  case (Cons r rs)
  have "length (py_strip (take 50 t)) \<le> 50" for t :: string
    using length_py_strip[of "take 50 t"] by simp
  with Cons show ?case
    by (auto simp: spec_preview_Cons split: option.splits if_splits)
qed

lemma system_wrapped: "is_system_wrapped (''<system>'' @ x @ ''</system>'')"
  unfolding is_system_wrapped_def
proof
  show "prefix ''<system>'' (''<system>'' @ x @ ''</system>'')" by simp
  have "suffix ''</system>'' ((''<system>'' @ x) @ ''</system>'')" by (rule suffix_appendI) simp
  then show "suffix ''</system>'' (''<system>'' @ x @ ''</system>'')" by simp
qed

text \<open>
  Claim C6. The preview in a session file's summary is the text of the first user
  message, among the records the summary reads, that has a text and is not wrapped in
  \<open><system>\<close> and \<open></system>\<close>, cut to 50 characters and stripped; it is never longer
  than 50 characters. The records are read from the lines the reader yields: all the
  lines of a file whose text can be read, none (and no preview) where the file cannot be
  opened. A user message whose content is a wrapped string is counted and
  gives no preview; content \<open>[{"text": "hello"}]\<close> gives the preview \<open>hello\<close>; a string
  content gives its first 50 characters, stripped.
\<close>

theorem preview_of_first_user_text:
  "(get_session_info env fs f = Inr summary \<longrightarrow>
      first_message summary = spec_preview env (decoded_records env (lines_read fs f))
      \<and> (\<forall>p. first_message summary = Some p \<longrightarrow> length p \<le> 50)
      \<and> (\<forall>e. open_read fs f = Inl e \<and> e \<noteq> UnicodeDecodeError \<longrightarrow>
            first_message summary = None))
   \<and> (open_read fs f = Inr txt \<longrightarrow> lines_read fs f = file_lines txt)
   \<and> scan_record env (user_message (JStr (''<system>'' @ x @ ''</system>''))) info
       = Inr (info\<lparr>num_messages := num_messages info + 1\<rparr>)
   \<and> (first_message info = None \<longrightarrow>
        scan_record env (user_message (JArr [JObj [(''text'', JStr ''hello'')]])) info
          = Inr (info\<lparr>num_messages := num_messages info + 1, first_message := Some ''hello''\<rparr>))
   \<and> (first_message info = None \<and> t \<noteq> [] \<and> \<not> is_system_wrapped t \<longrightarrow>
        scan_record env (user_message (JStr t)) info
          = Inr (info\<lparr>num_messages := num_messages info + 1,
                      first_message := Some (py_strip (take 50 t))\<rparr>)
        \<and> length (py_strip (take 50 t)) \<le> 50)"
proof -
  have a: "first_message (read_session_info env fs f)
      = spec_preview env (decoded_records env (lines_read fs f))"
    by (simp add: read_session_info_def lines_read_def scan_lines_preview initial_info_def
        spec_preview_Nil split: sum.splits prod.splits)
  have b: "\<forall>p. first_message (read_session_info env fs f) = Some p \<longrightarrow> length p \<le> 50"
    unfolding a by (auto dest: spec_preview_length)
  have lr: "open_read fs f = Inr txt \<longrightarrow> lines_read fs f = file_lines txt"
    by (auto simp: open_read_def lines_read_def open_lines_def split: option.splits node.splits)
  have "\<forall>e. open_read fs f = Inl e \<and> e \<noteq> UnicodeDecodeError \<longrightarrow> lines_read fs f = []"
    by (auto simp: open_read_def lines_read_def open_lines_def split: option.splits node.splits)
  then have n: "\<forall>e. open_read fs f = Inl e \<and> e \<noteq> UnicodeDecodeError \<longrightarrow>
      first_message (read_session_info env fs f) = None"
    unfolding a by (auto simp: spec_preview_Nil)
  have ab: "get_session_info env fs f = Inr summary \<longrightarrow>
      first_message summary = spec_preview env (decoded_records env (lines_read fs f))
      \<and> (\<forall>p. first_message summary = Some p \<longrightarrow> length p \<le> 50)
      \<and> (\<forall>e. open_read fs f = Inl e \<and> e \<noteq> UnicodeDecodeError \<longrightarrow>
            first_message summary = None)"
    using a b n by (auto simp: get_session_info_def split: if_splits)
  have c: "scan_record env (user_message (JStr (''<system>'' @ x @ ''</system>''))) info
       = Inr (info\<lparr>num_messages := num_messages info + 1\<rparr>)"
    using system_wrapped[of x]
    by (simp add: scan_record_def user_message_def content_text_def Let_def)
  have h: "py_strip (take 50 ''hello'') = ''hello''" by code_simp
  have w: "\<not> is_system_wrapped ''hello''" by code_simp
  have d: "first_message info = None \<longrightarrow>
        scan_record env (user_message (JArr [JObj [(''text'', JStr ''hello'')]])) info
          = Inr (info\<lparr>num_messages := num_messages info + 1, first_message := Some ''hello''\<rparr>)"
    using h w
    by (simp add: scan_record_def user_message_def content_text_def str_of_def Let_def)
  have e: "first_message info = None \<and> t \<noteq> [] \<and> \<not> is_system_wrapped t \<longrightarrow>
        scan_record env (user_message (JStr t)) info
          = Inr (info\<lparr>num_messages := num_messages info + 1,
                      first_message := Some (py_strip (take 50 t))\<rparr>)
        \<and> length (py_strip (take 50 t)) \<le> 50"
    using length_py_strip[of "take 50 t"]
    by (simp add: scan_record_def user_message_def content_text_def Let_def)
  from ab lr c d e show ?thesis by blast
qed

theorem preview_of_first_user_text_witness:
  "get_session_info demo_env (demo_fs (demo_doc ''s1'')) (demo_sessions @ [''s2.jsonl''])
     = Inr \<lparr>timestamp = 200, num_messages = 3, num_checkpoints = 0, first_message = Some ''hello''\<rparr>
   \<and> spec_preview demo_env (decoded_records demo_env (file_lines demo_log_s2)) = Some ''hello''
   \<and> scan_record demo_env (user_message (JStr ''<system>x</system>'')) (initial_info demo_env [])
       = Inr ((initial_info demo_env [])\<lparr>num_messages := 1\<rparr>)
   \<and> scan_record demo_env (user_message (JArr [JObj [(''text'', JStr ''hello'')]]))
         (initial_info demo_env [])
       = Inr ((initial_info demo_env [])\<lparr>num_messages := 1, first_message := Some ''hello''\<rparr>)
   \<and> scan_record demo_env (user_message (JStr (replicate 60 (CHR ''a'')))) (initial_info demo_env [])
       = Inr ((initial_info demo_env [])\<lparr>num_messages := 1,
                first_message := Some (replicate 50 (CHR ''a''))\<rparr>)"
proof -
  let ?fs = "demo_fs (demo_doc ''s1'')"
  let ?f = "demo_sessions @ [''s2.jsonl'']"
  let ?i = "initial_info demo_env []"
  let ?t = "replicate 60 (CHR ''a'')"
  let ?s = "\<lparr>timestamp = 200, num_messages = 3, num_checkpoints = 0, first_message = Some ''hello''\<rparr>"
  note t = preview_of_first_user_text[of demo_env ?fs ?f ?s demo_log_s2 "''x''" ?i ?t]
  have g: "get_session_info demo_env ?fs ?f = Inr ?s" by code_simp
  have o: "open_read ?fs ?f = Inr demo_log_s2" by code_simp
  have i: "first_message ?i = None" "num_messages ?i = 0" by (simp_all add: initial_info_def)
  have l: "?t \<noteq> []" "\<not> is_system_wrapped ?t" "py_strip (take 50 ?t) = replicate 50 (CHR ''a'')"
    by code_simp+
  from t g o have "spec_preview demo_env (decoded_records demo_env (file_lines demo_log_s2))
      = Some ''hello''" by simp
  moreover from t i have "scan_record demo_env (user_message (JStr ''<system>x</system>'')) ?i
       = Inr (?i\<lparr>num_messages := 1\<rparr>)" by simp
  moreover from t i have "scan_record demo_env (user_message (JArr [JObj [(''text'', JStr ''hello'')]])) ?i
       = Inr (?i\<lparr>num_messages := 1, first_message := Some ''hello''\<rparr>)" by simp
  moreover from t i l have "scan_record demo_env (user_message (JStr ?t)) ?i
       = Inr (?i\<lparr>num_messages := 1, first_message := Some (replicate 50 (CHR ''a''))\<rparr>)"
    by simp
  ultimately show ?thesis using g by blast
qed

section \<open>The listing\<close>


lemma set_sort_sessions: "set (sort_sessions ss) = set ss"
  by (simp add: sort_sessions_def)

lemma glob_jsonl_member:
  "p \<in> set (glob_jsonl fs d) \<Longrightarrow> butlast p = d \<and> suffix ''.jsonl'' (last p)"
  by (auto simp: glob_jsonl_def)

lemma collect_sessions_result:
  "collect_sessions env fs w ps =
     (if \<forall>p \<in> set (filter (\<lambda>p. CHR ''_'' \<notin> set (stem p)) ps). path_exists fs p
      then Inr (map (session_entry env fs w) (filter (\<lambda>p. CHR ''_'' \<notin> set (stem p)) ps))
      else Inl FileNotFoundError)"
  by (induction ps) (auto simp: get_session_info_def session_entry_def)

lemma list_sessions_registered:
  assumes "load_metadata env fs = Inr m"
    and "find (\<lambda>w. path w = wd) (work_dirs m) = Some w"
    and "sessions_dir env w fs = Inr (sd, fs1)"
  shows "list_sessions env wd fs =
     (if \<forall>p \<in> set (filter (\<lambda>p. CHR ''_'' \<notin> set (stem p)) (glob_jsonl fs1 sd)). path_exists fs1 p
      then Inr (sort_sessions
              (map (session_entry env fs1 w)
                 (filter (\<lambda>p. CHR ''_'' \<notin> set (stem p)) (glob_jsonl fs1 sd))),
            fs1)
      else Inl FileNotFoundError)"
  using assms by (auto simp add: list_sessions_def collect_sessions_result)

lemma session_entry_file: "fst (snd (session_entry env fs w p)) = p"
  by (simp add: session_entry_def)

lemma session_entry_id: "fst (session_entry env fs w p) = stem p"
  by (simp add: session_entry_def)

lemma demo_list_sessions:
  "list_sessions demo_env ''/home/u/proj'' (demo_fs (demo_doc ''s1''))
     = Inr ([(''s2'', demo_sessions @ [''s2.jsonl''],
              \<lparr>timestamp = 200, num_messages = 3, num_checkpoints = 0,
               first_message = Some ''hello'', is_current = False\<rparr>),
             (''s1'', demo_sessions @ [''s1.jsonl''],
              \<lparr>timestamp = 100, num_messages = 1, num_checkpoints = 1,
               first_message = Some ''hi'', is_current = True\<rparr>)],
            demo_fs (demo_doc ''s1''))"
  by code_simp






text \<open>
  Claim C1. Every entry \<open>list_sessions\<close> returns has an id without an underscore, which
  is the stem of its file; the file is an existing \<open>*.jsonl\<close> entry of the namespace
  directory of the working directory's record. No path whose stem contains an underscore
  is the file of an entry, whatever the file holds.
\<close>

theorem list_sessions_excludes_backups:
  assumes "list_sessions env wd fs = Inr (ss, fs')"
  shows "(\<forall>e \<in> set ss.
            CHR ''_'' \<notin> set (fst e) \<and> fst e = stem (fst (snd e))
            \<and> suffix ''.jsonl'' (last (fst (snd e))) \<and> path_exists fs' (fst (snd e))
            \<and> (\<exists>m w. load_metadata env fs = Inr m
                  \<and> find (\<lambda>w. path w = wd) (work_dirs m) = Some w
                  \<and> butlast (fst (snd e)) = sessions_dir_path env w))
    \<and> (\<forall>p. CHR ''_'' \<in> set (stem p) \<longrightarrow> p \<notin> (fst \<circ> snd) ` set ss)"
proof -
  from assms obtain m where m: "load_metadata env fs = Inr m"
    by (auto simp: list_sessions_def split: sum.splits)
  show ?thesis
  proof (cases "find (\<lambda>w. path w = wd) (work_dirs m)")
    case None
    with assms m have "ss = []" by (simp add: list_sessions_def)
    then show ?thesis by simp
  next
    case (Some w)
    with assms m obtain sd where sd: "sessions_dir env w fs = Inr (sd, fs')"
      by (auto simp: list_sessions_def split: sum.splits)
    then have sdp: "sd = sessions_dir_path env w"
      by (auto simp: sessions_dir_def split: sum.splits)
    let ?live = "filter (\<lambda>p. CHR ''_'' \<notin> set (stem p)) (glob_jsonl fs' sd)"
    from list_sessions_registered[OF m Some sd] assms
    have ss: "ss = sort_sessions (map (session_entry env fs' w) ?live)"
      and ex: "\<forall>p \<in> set ?live. path_exists fs' p"
      by (simp_all split: if_splits)
    have e: "\<exists>p \<in> set ?live. e = session_entry env fs' w p" if "e \<in> set ss" for e
      using that unfolding ss by (auto simp: set_sort_sessions)
    have a: "\<forall>e \<in> set ss.
            CHR ''_'' \<notin> set (fst e) \<and> fst e = stem (fst (snd e))
            \<and> suffix ''.jsonl'' (last (fst (snd e))) \<and> path_exists fs' (fst (snd e))
            \<and> (\<exists>m w. load_metadata env fs = Inr m
                  \<and> find (\<lambda>w. path w = wd) (work_dirs m) = Some w
                  \<and> butlast (fst (snd e)) = sessions_dir_path env w)"
    proof
      fix e assume "e \<in> set ss"
      from e[OF this] obtain p where p: "p \<in> set (glob_jsonl fs' sd)"
        and u: "CHR ''_'' \<notin> set (stem p)" and ep: "e = session_entry env fs' w p"
        by auto
      from p u ex have "path_exists fs' p" by simp
      with glob_jsonl_member[OF p] u m Some sdp
      show "CHR ''_'' \<notin> set (fst e) \<and> fst e = stem (fst (snd e))
            \<and> suffix ''.jsonl'' (last (fst (snd e))) \<and> path_exists fs' (fst (snd e))
            \<and> (\<exists>m w. load_metadata env fs = Inr m
                  \<and> find (\<lambda>w. path w = wd) (work_dirs m) = Some w
                  \<and> butlast (fst (snd e)) = sessions_dir_path env w)"
        unfolding ep by (simp add: session_entry_file session_entry_id)
    qed
    have b: "\<forall>p. CHR ''_'' \<in> set (stem p) \<longrightarrow> p \<notin> (fst \<circ> snd) ` set ss"
      unfolding ss by (auto simp: set_sort_sessions session_entry_file)
    from a b show ?thesis by blast
  qed
qed

theorem list_sessions_excludes_backups_witness:
  "(\<exists>ss. list_sessions demo_env ''/home/u/proj'' (demo_fs (demo_doc ''s1''))
            = Inr (ss, demo_fs (demo_doc ''s1''))
      \<and> map fst ss = [''s2'', ''s1'']
      \<and> demo_sessions @ [''s1_1.jsonl''] \<notin> (fst \<circ> snd) ` set ss)
   \<and> path_exists (demo_fs (demo_doc ''s1'')) (demo_sessions @ [''s1_1.jsonl''])
   \<and> CHR ''_'' \<in> set (stem (demo_sessions @ [''s1_1.jsonl'']))"
proof -
  let ?b = "demo_sessions @ [''s1_1.jsonl'']"
  note t = list_sessions_excludes_backups[OF demo_list_sessions]
  have u: "CHR ''_'' \<in> set (stem ?b)" by code_simp
  have x: "path_exists (demo_fs (demo_doc ''s1'')) ?b" by code_simp
  from t u have "?b \<notin> (fst \<circ> snd) ` set
      [(''s2'', demo_sessions @ [''s2.jsonl''],
              \<lparr>timestamp = 200, num_messages = 3, num_checkpoints = 0,
               first_message = Some ''hello'', is_current = False\<rparr>),
             (''s1'', demo_sessions @ [''s1.jsonl''],
              \<lparr>timestamp = 100, num_messages = 1, num_checkpoints = 1,
               first_message = Some ''hi'', is_current = True\<rparr>)]"
    by blast
  with demo_list_sessions u x show ?thesis by auto
qed

end
